theory Spec2Isabelle
  imports Complex_Main "HOL-Library.Sublist"
begin

section \<open>Conventions of the embedding\<close>

text \<open>
  The Python sources compute with \<open>int\<close> and \<open>float\<close>. Python's \<open>int\<close> is
  unbounded and is modelled by \<^typ>\<open>int\<close>. A Python \<open>float\<close> is modelled by an
  exact rational number (\<^typ>\<open>rat\<close>): every decimal literal of the sources is the
  rational it denotes, and \<open>+\<close>, \<open>-\<close>, \<open>*\<close>, \<open>/\<close>, \<open>min\<close>, \<open>max\<close> are exact, so
  the binary rounding of IEEE doubles is not part of the model. Strings are lists of
  8-bit characters. A dictionary with a fixed set of keys is a record; a key that the
  code reads with \<open>.get(key, default)\<close> is an optional field, and reading an absent
  key with \<open>d[key]\<close> is the error \<open>KeyError\<close>. An exception is a value \<open>Inl e\<close> of
  the result type \<open>py_error + 'a\<close>.
\<close>

datatype py_error = KeyError | ZeroDivisionError | TypeError | IndexError


section \<open>Python strings\<close>

text \<open>
  \<open>str.lower\<close> on the ASCII letters; every other character is left as it is (the
  keyword tables of the sources are ASCII). \<open>py_in t s\<close> is Python's \<open>t in s\<close> on
  strings: \<open>t\<close> occurs in \<open>s\<close> as a contiguous substring.
\<close>

definition lower_char :: "char \<Rightarrow> char" where
  "lower_char c =
    (let n = (of_char c :: nat) in if 65 \<le> n \<and> n \<le> 90 then char_of (n + 32) else c)"

definition lower :: "string \<Rightarrow> string" where
  "lower s = map lower_char s"

fun py_in :: "string \<Rightarrow> string \<Rightarrow> bool" where
  "py_in t [] = (t = [])"
| "py_in t (c # cs) = (prefix t (c # cs) \<or> py_in t cs)"

section \<open>enhanced\_depreciation.py: segment classification\<close>

text \<open>The keyword lists are the local variables of \<open>_classify_vehicle_segment\<close>.\<close>

definition ev_terms :: "string list" where
  "ev_terms = [''electric'', ''ev'', ''volt'', ''leaf'', ''prius prime'', ''ioniq'',
     ''model s'', ''model 3'', ''model x'', ''model y'', ''i3'', ''i4'', ''ix'',
     ''etron'', ''e-tron'', ''taycan'', ''lightning'', ''bolt'', ''clarity'']"

definition ev_makes :: "string list" where
  "ev_makes = [''tesla'', ''rivian'', ''lucid'']"

definition luxury_brands :: "string list" where
  "luxury_brands = [''bmw'', ''mercedes-benz'', ''audi'', ''lexus'', ''acura'', ''infiniti'',
     ''cadillac'', ''lincoln'', ''genesis'', ''volvo'', ''jaguar'', ''land rover'',
     ''porsche'', ''maserati'', ''bentley'', ''rolls-royce'']"

definition sports_terms :: "string list" where
  "sports_terms = [''corvette'', ''mustang'', ''camaro'', ''challenger'', ''charger'',
     ''911'', ''cayman'', ''boxster'', ''gt'', ''sport'', ''rs'', ''m3'', ''m5'',
     ''amg'', ''type r'', ''sti'', ''wrx'', ''z'', ''supra'', ''nsx'']"

definition truck_terms :: "string list" where
  "truck_terms = [''f-150'', ''f-250'', ''f-350'', ''silverado'', ''sierra'', ''ram 1500'',
     ''ram 2500'', ''tundra'', ''tacoma'', ''frontier'', ''ridgeline'',
     ''colorado'', ''canyon'', ''ranger'', ''gladiator'', ''titan'']"

definition suv_terms :: "string list" where
  "suv_terms = [''suburban'', ''tahoe'', ''yukon'', ''expedition'', ''navigator'',
     ''escalade'', ''pilot'', ''passport'', ''ridgeline'', ''highlander'',
     ''rav4'', ''cr-v'', ''hr-v'', ''santa fe'', ''tucson'', ''sorento'',
     ''telluride'', ''palisade'', ''cx-5'', ''cx-9'', ''outback'', ''forester'',
     ''ascent'', ''pathfinder'', ''armada'', ''durango'', ''grand cherokee'',
     ''cherokee'', ''compass'', ''renegade'', ''wrangler'']"

definition compact_terms :: "string list" where
  "compact_terms = [''civic'', ''corolla'', ''elantra'', ''forte'', ''sentra'', ''versa'',
     ''mazda3'', ''impreza'', ''crosstrek'', ''jetta'', ''golf'']"

definition economy_terms :: "string list" where
  "economy_terms = [''spark'', ''mirage'', ''rio'', ''accent'', ''yaris'', ''fit'']"

text \<open>\<open>any(term in model_lower for term in terms)\<close>.\<close>

definition any_term_in :: "string list \<Rightarrow> string \<Rightarrow> bool" where
  "any_term_in terms model_lower = list_ex (\<lambda>term. py_in term model_lower) terms"

definition classify_vehicle_segment :: "string \<Rightarrow> string \<Rightarrow> string" where
  "classify_vehicle_segment make model =
    (let model_lower = lower model; make_lower = lower make in
     if any_term_in ev_terms model_lower \<or> make_lower \<in> set ev_makes then ''electric''
     else if make_lower \<in> set luxury_brands then ''luxury''
     else if any_term_in sports_terms model_lower then ''sports''
     else if any_term_in truck_terms model_lower \<or> py_in ''truck'' model_lower then ''truck''
     else if any_term_in suv_terms model_lower \<or> py_in ''suv'' model_lower then ''suv''
     else if any_term_in compact_terms model_lower then ''compact''
     else if any_term_in economy_terms model_lower then ''economy''
     else ''sedan'')"

text \<open>The eight segments of the data model.\<close>

definition segments :: "string list" where
  "segments = [''luxury'', ''electric'', ''truck'', ''suv'', ''sports'', ''compact'',
     ''sedan'', ''economy'']"

section \<open>enhanced\_depreciation.py: the mileage multiplier\<close>

text \<open>
  \<open>EnhancedDepreciationModel._calculate_mileage_impact\<close>. The parameter is annotated
  \<open>int\<close>, but \<open>estimate_current_value\<close> passes the quotient
  \<open>current_mileage / max(vehicle_age, 1)\<close>, so the argument is a number in general.
\<close>

definition calculate_mileage_impact :: "rat \<Rightarrow> rat" where
  "calculate_mileage_impact annual_mileage =
    (if annual_mileage \<le> 100 then 0.60
     else if annual_mileage \<le> 1000 then
       (let ratio = (annual_mileage - 100) / 900 in 0.60 + (ratio * 0.15))
     else if annual_mileage \<le> 5000 then
       (let ratio = (annual_mileage - 1000) / 4000 in 0.75 + (ratio * 0.10))
     else
       (let standard_mileage = 12000 in
        if annual_mileage \<le> standard_mileage then
          (let ratio = annual_mileage / standard_mileage in 0.85 + (ratio * 0.15))
        else if annual_mileage \<le> 20000 then
          (let excess_ratio = (annual_mileage - standard_mileage) / 8000
           in 1.0 + (excess_ratio * 0.25))
        else min 1.5 (1.25 + ((annual_mileage - 20000) / 20000 * 0.25))))"


section \<open>Dictionaries\<close>

text \<open>
  A dictionary literal is an association list in the order of the source.
  \<open>get_or d k v\<close> is \<open>d.get(k, v)\<close>, and \<open>lookup d k\<close> is \<open>d[k]\<close>, which raises
  \<open>KeyError\<close> on an absent key.
\<close>

definition get_or :: "('k \<times> 'v) list \<Rightarrow> 'k \<Rightarrow> 'v \<Rightarrow> 'v" where
  "get_or d k v = (case map_of d k of None \<Rightarrow> v | Some x \<Rightarrow> x)"

definition lookup :: "('k \<times> 'v) list \<Rightarrow> 'k \<Rightarrow> py_error + 'v" where
  "lookup d k = (case map_of d k of None \<Rightarrow> Inl KeyError | Some x \<Rightarrow> Inr x)"

section \<open>enhanced\_depreciation.py: the tables of the model\<close>

definition depreciation_brand_multipliers :: "(string \<times> rat) list" where
  "depreciation_brand_multipliers =
    [(''Toyota'', 0.78), (''Honda'', 0.80), (''Lexus'', 0.75), (''Porsche'', 0.82),
     (''Subaru'', 0.88), (''Mazda'', 0.90), (''Hyundai'', 0.92), (''Kia'', 0.94),
     (''Acura'', 0.85),
     (''Ford'', 1.00), (''Chevrolet'', 1.02), (''GMC'', 1.00), (''Buick'', 0.98),
     (''Nissan'', 1.03), (''Infiniti'', 1.08), (''Volvo'', 1.05),
     (''Volkswagen'', 1.12), (''Mini'', 1.15), (''Jaguar'', 1.18), (''Land Rover'', 1.20),
     (''BMW'', 1.22), (''Mercedes-Benz'', 1.25), (''Audi'', 1.18), (''Cadillac'', 1.20),
     (''Lincoln'', 1.25), (''Genesis'', 1.15),
     (''Chrysler'', 1.30), (''Dodge'', 1.28), (''Jeep'', 1.10), (''Ram'', 1.05),
     (''Fiat'', 1.35), (''Alfa Romeo'', 1.32),
     (''Tesla'', 1.15), (''Rivian'', 1.25), (''Lucid'', 1.30)]"

definition segment_curves :: "(string \<times> (int \<times> rat) list) list" where
  "segment_curves =
    [(''luxury'',
       [(1, 0.25), (2, 0.42), (3, 0.55), (4, 0.65), (5, 0.72),
        (6, 0.77), (7, 0.81), (8, 0.84), (9, 0.86), (10, 0.88),
        (11, 0.89), (12, 0.90), (13, 0.91), (14, 0.92), (15, 0.93)]),
     (''electric'',
       [(1, 0.30), (2, 0.50), (3, 0.65), (4, 0.75), (5, 0.82),
        (6, 0.86), (7, 0.89), (8, 0.91), (9, 0.92), (10, 0.93),
        (11, 0.94), (12, 0.95), (13, 0.95), (14, 0.95), (15, 0.95)]),
     (''truck'',
       [(1, 0.15), (2, 0.28), (3, 0.38), (4, 0.46), (5, 0.53),
        (6, 0.59), (7, 0.64), (8, 0.68), (9, 0.71), (10, 0.74),
        (11, 0.76), (12, 0.78), (13, 0.80), (14, 0.82), (15, 0.84)]),
     (''sports'',
       [(1, 0.22), (2, 0.38), (3, 0.50), (4, 0.60), (5, 0.68),
        (6, 0.74), (7, 0.78), (8, 0.81), (9, 0.83), (10, 0.85),
        (11, 0.86), (12, 0.87), (13, 0.88), (14, 0.89), (15, 0.90)]),
     (''suv'',
       [(1, 0.18), (2, 0.32), (3, 0.43), (4, 0.52), (5, 0.60),
        (6, 0.66), (7, 0.71), (8, 0.75), (9, 0.78), (10, 0.80),
        (11, 0.82), (12, 0.83), (13, 0.84), (14, 0.85), (15, 0.86)]),
     (''compact'',
       [(1, 0.20), (2, 0.35), (3, 0.47), (4, 0.56), (5, 0.64),
        (6, 0.70), (7, 0.75), (8, 0.79), (9, 0.82), (10, 0.84),
        (11, 0.86), (12, 0.87), (13, 0.88), (14, 0.89), (15, 0.90)]),
     (''sedan'',
       [(1, 0.21), (2, 0.36), (3, 0.48), (4, 0.58), (5, 0.66),
        (6, 0.72), (7, 0.77), (8, 0.81), (9, 0.84), (10, 0.86),
        (11, 0.88), (12, 0.89), (13, 0.90), (14, 0.91), (15, 0.92)]),
     (''economy'',
       [(1, 0.24), (2, 0.40), (3, 0.52), (4, 0.62), (5, 0.70),
        (6, 0.76), (7, 0.81), (8, 0.84), (9, 0.87), (10, 0.89),
        (11, 0.90), (12, 0.91), (13, 0.92), (14, 0.93), (15, 0.94)])]"

definition standard_curve :: "(int \<times> rat) list" where
  "standard_curve =
    [(1, 0.20), (2, 0.34), (3, 0.45), (4, 0.54), (5, 0.62),
     (6, 0.68), (7, 0.73), (8, 0.77), (9, 0.80), (10, 0.82),
     (11, 0.84), (12, 0.85), (13, 0.86), (14, 0.87), (15, 0.88)]"

definition high_retention_models :: "(string \<times> string list) list" where
  "high_retention_models =
    [(''Toyota'', [''Prius'', ''Camry'', ''Corolla'', ''RAV4'', ''Highlander'', ''Sienna'',
                  ''Tundra'', ''Tacoma'']),
     (''Honda'', [''Civic'', ''Accord'', ''CR-V'', ''Pilot'', ''Odyssey'', ''Ridgeline'']),
     (''Subaru'', [''Outback'', ''Forester'', ''Impreza'', ''WRX'', ''Crosstrek'']),
     (''Lexus'', [''RX'', ''ES'', ''GX'', ''LX'', ''NX'']),
     (''Jeep'', [''Wrangler'']),
     (''Ford'', [''F-150'', ''Bronco'']),
     (''Chevrolet'', [''Corvette'', ''Silverado'', ''Tahoe'']),
     (''Porsche'', [''911'', ''Macan'', ''Cayenne'']),
     (''Tesla'', [''Model S'', ''Model 3''])]"

definition poor_retention_models :: "(string \<times> string list) list" where
  "poor_retention_models =
    [(''BMW'', [''X6'', ''7 Series'', ''i3'', ''i8'']),
     (''Mercedes-Benz'', [''S-Class'', ''SL-Class'', ''G-Class'']),
     (''Audi'', [''A8'', ''R8'', ''Q7'']),
     (''Cadillac'', [''Escalade'', ''CT6'']),
     (''Lincoln'', [''Navigator'', ''Continental'']),
     (''Chrysler'', [''300'', ''Pacifica'']),
     (''Fiat'', [''500'', ''500X'']),
     (''Jaguar'', [''XJ'', ''F-Type'']),
     (''Land Rover'', [''Range Rover'', ''Discovery''])]"

text \<open>The dictionary \<open>max_depreciation\<close> of \<open>calculate_depreciation_schedule\<close>.\<close>

definition max_depreciation :: "(string \<times> rat) list" where
  "max_depreciation =
    [(''luxury'', 0.95), (''electric'', 0.96), (''economy'', 0.94),
     (''sedan'', 0.92), (''compact'', 0.91), (''suv'', 0.88),
     (''truck'', 0.85), (''sports'', 0.90)]"

section \<open>enhanced\_depreciation.py: the depreciation schedule\<close>

definition get_cumulative_depreciation_rate :: "int \<Rightarrow> string \<Rightarrow> py_error + rat" where
  "get_cumulative_depreciation_rate year segment =
    (let curve = get_or segment_curves segment standard_curve in
     if year \<le> 15 then lookup curve year
     else
       (case lookup curve 15 of
          Inl e \<Rightarrow> Inl e
        | Inr final_rate \<Rightarrow>
            (let additional_years = year - 15
             in Inr (min 0.96 (final_rate + (of_int additional_years * 0.005))))))"

text \<open>
  \<open>any(model_name.lower() in model.lower() for model_name in names)\<close> for the names
  listed under the make, and \<open>False\<close> when the make is not a key of the table.
\<close>

definition listed_model :: "(string \<times> string list) list \<Rightarrow> string \<Rightarrow> string \<Rightarrow> bool" where
  "listed_model table make model =
    (case map_of table make of
       None \<Rightarrow> False
     | Some names \<Rightarrow> list_ex (\<lambda>model_name. py_in (lower model_name) (lower model)) names)"

definition apply_model_specific_adjustments :: "string \<Rightarrow> string \<Rightarrow> rat \<Rightarrow> rat" where
  "apply_model_specific_adjustments make model base_multiplier =
    (if listed_model high_retention_models make model then base_multiplier * 0.85
     else if listed_model poor_retention_models make model then base_multiplier * 1.15
     else base_multiplier)"

text \<open>
  One entry of a depreciation schedule. The two producers of a schedule write different
  keys: the fields after \<open>dep_rate\<close> are the keys only one of them writes.
\<close>

record depreciation_entry =
  dep_year :: int
  dep_vehicle_value :: rat
  dep_annual_depreciation :: rat
  dep_rate :: rat
  dep_cumulative_depreciation :: "rat option"
  dep_segment :: "string option"
  dep_brand_multiplier :: "rat option"
  dep_mileage_multiplier :: "rat option"
  dep_ownership_year :: "int option"
  dep_vehicle_age :: "int option"

text \<open>
  The loop \<open>for year in range(1, years + 1)\<close> of \<open>calculate_depreciation_schedule\<close>,
  from the iteration \<open>year\<close> on, with the schedule appended so far.
  \<open>schedule[-1]\<close> on an empty list is \<open>IndexError\<close>.
\<close>

function depreciation_loop ::
  "rat \<Rightarrow> string \<Rightarrow> rat \<Rightarrow> rat \<Rightarrow> int \<Rightarrow> int \<Rightarrow> depreciation_entry list
    \<Rightarrow> py_error + depreciation_entry list" where
  "depreciation_loop initial_value segment adjusted_brand_multiplier mileage_multiplier
       years year schedule =
    (if year > years then Inr schedule
     else
       (case get_cumulative_depreciation_rate year segment of
          Inl e \<Rightarrow> Inl e
        | Inr base_cumulative_rate \<Rightarrow>
            (let adjusted_rate =
                   base_cumulative_rate * adjusted_brand_multiplier * mileage_multiplier;
                 cap = get_or max_depreciation segment 0.92;
                 adjusted_rate = min adjusted_rate cap;
                 new_value = initial_value * (1 - adjusted_rate)
             in if year \<noteq> 1 \<and> schedule = [] then Inl IndexError
                else
                  (let annual_depreciation =
                         (if year = 1 then initial_value - new_value
                          else dep_vehicle_value (last schedule) - new_value)
                   in depreciation_loop initial_value segment adjusted_brand_multiplier
                        mileage_multiplier years (year + 1)
                        (schedule @
                          [\<lparr> dep_year = year,
                             dep_vehicle_value = new_value,
                             dep_annual_depreciation = annual_depreciation,
                             dep_rate = adjusted_rate,
                             dep_cumulative_depreciation = Some (initial_value - new_value),
                             dep_segment = Some segment,
                             dep_brand_multiplier = Some adjusted_brand_multiplier,
                             dep_mileage_multiplier = Some mileage_multiplier,
                             dep_ownership_year = None,
                             dep_vehicle_age = None \<rparr>])))))"
  by pat_completeness auto
termination
  by (relation "measure (\<lambda>(iv, seg, abm, mm, years, year, schedule). nat (years + 1 - year))")
    auto

declare depreciation_loop.simps [simp del]

definition calculate_depreciation_schedule ::
  "rat \<Rightarrow> string \<Rightarrow> string \<Rightarrow> int \<Rightarrow> int \<Rightarrow> int \<Rightarrow> py_error + depreciation_entry list" where
  "calculate_depreciation_schedule initial_value vehicle_make vehicle_model model_year
       annual_mileage years =
    (let segment = classify_vehicle_segment vehicle_make vehicle_model;
         brand_multiplier = get_or depreciation_brand_multipliers vehicle_make 1.0;
         adjusted_brand_multiplier =
           apply_model_specific_adjustments vehicle_make vehicle_model brand_multiplier;
         mileage_multiplier = calculate_mileage_impact (of_int annual_mileage)
     in depreciation_loop initial_value segment adjusted_brand_multiplier mileage_multiplier
          years 1 [])"

text \<open>
  The value of the vehicle after a schedule: the value of its last entry, and the
  initial value when the schedule has no entry.
\<close>

definition value_after :: "rat \<Rightarrow> depreciation_entry list \<Rightarrow> rat" where
  "value_after initial_value schedule =
    (if schedule = [] then initial_value else dep_vehicle_value (last schedule))"


section \<open>Loops over a range of years\<close>

text \<open>
  \<open>for year in range(start, stop + 1): body\<close>, where the body updates the local state
  of the loop and may raise. The loop runs the body for \<open>year\<close>, \<open>year + 1\<close>, ...,
  \<open>stop\<close> and stops at the first exception.
\<close>

function for_range ::
  "(int \<Rightarrow> 's \<Rightarrow> py_error + 's) \<Rightarrow> int \<Rightarrow> int \<Rightarrow> 's \<Rightarrow> py_error + 's" where
  "for_range body year stop s =
    (if year > stop then Inr s
     else (case body year s of
             Inl e \<Rightarrow> Inl e
           | Inr s' \<Rightarrow> for_range body (year + 1) stop s'))"
  by pat_completeness auto
termination
  by (relation "measure (\<lambda>(body, year, stop, s). nat (stop + 1 - year))") auto

declare for_range.simps [simp del]

section \<open>prediction\_service.py: the input dictionary\<close>

text \<open>
  \<open>input_data\<close>. The entry point reads \<open>make\<close>, \<open>model\<close> and \<open>year\<close> with
  \<open>input_data[...]\<close> before anything else, so these three keys are fields; every other
  key is optional, and is read with a default (\<open>.get\<close>) or as a required key
  (\<open>KeyError\<close> when absent) as the code does at each place.
\<close>

record input_data =
  in_make :: string
  in_model :: string
  in_year :: int
  in_zip_code :: "string option"
  in_state :: "string option"
  in_geography_type :: "string option"
  in_transaction_type :: "string option"
  in_analysis_years :: "int option"
  in_price :: "rat option"
  in_trim_msrp :: "rat option"
  in_current_mileage :: "int option"
  in_annual_mileage :: "int option"
  in_financing_type :: "string option"
  in_financing_option :: "string option"
  in_loan_amount :: "rat option"
  in_interest_rate :: "rat option"
  in_loan_term :: "int option"
  in_driving_style :: "string option"
  in_terrain :: "string option"
  in_shop_type :: "string option"
  in_driver_age :: "int option"
  in_user_age :: "int option"
  in_coverage_type :: "string option"
  in_num_household_vehicles :: "int option"
  in_is_electric :: "bool option"
  in_electricity_rate :: "rat option"
  in_charging_preference :: "string option"
  in_charging_pref :: "string option"
  in_fuel_price :: "rat option"
  in_gross_income :: "rat option"
  in_lease_monthly_payment :: "rat option"
  in_lease_mileage_limit :: "int option"
  in_down_payment :: "rat option"

text \<open>\<open>d.get(key, default)\<close> and \<open>d[key]\<close> on an optional key.\<close>

definition get_default :: "'a option \<Rightarrow> 'a \<Rightarrow> 'a" where
  "get_default v d = (case v of None \<Rightarrow> d | Some x \<Rightarrow> x)"

definition required :: "'a option \<Rightarrow> py_error + 'a" where
  "required v = (case v of None \<Rightarrow> Inl KeyError | Some x \<Rightarrow> Inr x)"

section \<open>prediction\_service.py: depreciation of a used vehicle\<close>

text \<open>
  \<open>_calculate_realistic_used_vehicle_depreciation\<close>. The function reads the clock
  (\<open>datetime.now().year\<close>); the year it reads is the parameter \<open>current_year\<close>.
\<close>

definition used_annual_rates :: "int \<Rightarrow> rat list" where
  "used_annual_rates vehicle_age_at_purchase =
    (if vehicle_age_at_purchase \<le> 3 then [0.08, 0.07, 0.06, 0.05, 0.04]
     else if vehicle_age_at_purchase \<le> 7 then [0.05, 0.04, 0.04, 0.03, 0.03]
     else [0.03, 0.02, 0.02, 0.02, 0.02])"

definition used_brand_multipliers :: "(string \<times> rat) list" where
  "used_brand_multipliers =
    [(''Toyota'', 0.8), (''Honda'', 0.8), (''Lexus'', 0.7),
     (''BMW'', 1.2), (''Mercedes-Benz'', 1.2), (''Audi'', 1.1),
     (''Chevrolet'', 1.0), (''Ford'', 1.0), (''Hyundai'', 0.9)]"

text \<open>
  The body of the loop: the state is \<open>(current_value, schedule)\<close>. The index
  \<open>min(year - 1, len(annual_rates) - 1)\<close> is not negative, since \<open>year\<close> starts at 1.
\<close>

definition used_depreciation_year ::
  "int \<Rightarrow> input_data \<Rightarrow> rat \<Rightarrow> rat list \<Rightarrow> rat \<Rightarrow> int \<Rightarrow> rat \<times> depreciation_entry list
    \<Rightarrow> py_error + rat \<times> depreciation_entry list" where
  "used_depreciation_year current_year input_data initial_value annual_rates brand_multiplier
       year st =
    (case st of (current_value, schedule) \<Rightarrow>
      (let base_rate = annual_rates ! nat (min (year - 1) (int (length annual_rates) - 1));
           adjusted_rate = base_rate * brand_multiplier;
           annual_depreciation = current_value * adjusted_rate;
           new_value = current_value - annual_depreciation;
           min_value = initial_value * 0.15;
           new_value = max new_value min_value;
           annual_depreciation = current_value - new_value;
           ownership_year = current_year + year - 1
       in Inr (new_value,
               schedule @
                 [\<lparr> dep_year = year,
                    dep_vehicle_value = new_value,
                    dep_annual_depreciation = annual_depreciation,
                    dep_rate = adjusted_rate,
                    dep_cumulative_depreciation = None,
                    dep_segment = None,
                    dep_brand_multiplier = None,
                    dep_mileage_multiplier = None,
                    dep_ownership_year = Some ownership_year,
                    dep_vehicle_age = Some (ownership_year - in_year input_data) \<rparr>])))"

definition calculate_realistic_used_vehicle_depreciation ::
  "int \<Rightarrow> input_data \<Rightarrow> rat \<Rightarrow> int \<Rightarrow> py_error + depreciation_entry list" where
  "calculate_realistic_used_vehicle_depreciation current_year input_data initial_value
       analysis_years =
    (let vehicle_age_at_purchase = current_year - in_year input_data;
         current_value = initial_value;
         annual_rates = used_annual_rates vehicle_age_at_purchase;
         brand_multiplier = get_or used_brand_multipliers (in_make input_data) 1.0
     in (case for_range
                (used_depreciation_year current_year input_data initial_value annual_rates
                   brand_multiplier)
                1 analysis_years (current_value, [])
         of Inl e \<Rightarrow> Inl e
          | Inr (current_value, schedule) \<Rightarrow> Inr schedule))"

text \<open>An input dictionary with the three mandatory keys only.\<close>

definition minimal_input :: "string \<Rightarrow> string \<Rightarrow> int \<Rightarrow> input_data" where
  "minimal_input vehicle_make vehicle_model model_year =
    \<lparr> in_make = vehicle_make, in_model = vehicle_model, in_year = model_year,
      in_zip_code = None, in_state = None, in_geography_type = None,
      in_transaction_type = None, in_analysis_years = None,
      in_price = None, in_trim_msrp = None, in_current_mileage = None,
      in_annual_mileage = None, in_financing_type = None, in_financing_option = None,
      in_loan_amount = None, in_interest_rate = None, in_loan_term = None,
      in_driving_style = None, in_terrain = None, in_shop_type = None,
      in_driver_age = None, in_user_age = None, in_coverage_type = None,
      in_num_household_vehicles = None, in_is_electric = None,
      in_electricity_rate = None, in_charging_preference = None, in_charging_pref = None,
      in_fuel_price = None, in_gross_income = None, in_lease_monthly_payment = None,
      in_lease_mileage_limit = None, in_down_payment = None \<rparr>"

text \<open>The scenario of the specification: a used 2018 BMW 3-Series.\<close>

definition used_bmw_2018 :: input_data where
  "used_bmw_2018 = minimal_input ''BMW'' ''3-Series'' 2018"


section \<open>maintenance\_utils.py: the maintenance schedule\<close>

definition service_costs :: "(string \<times> int) list" where
  "service_costs =
    [(''oil_change'', 65), (''tire_rotation'', 25), (''air_filter'', 35),
     (''cabin_filter'', 45), (''brake_inspection'', 50), (''brake_pads'', 350),
     (''brake_rotors'', 450), (''transmission_service'', 200), (''coolant_flush'', 150),
     (''spark_plugs'', 180), (''timing_belt'', 800), (''major_service'', 400),
     (''differential_service'', 120), (''fuel_filter'', 85),
     (''battery_replacement'', 180), (''alternator'', 650), (''starter'', 550),
     (''water_pump'', 750)]"

definition service_intervals :: "(string \<times> int) list" where
  "service_intervals =
    [(''oil_change'', 7500), (''tire_rotation'', 7500), (''air_filter'', 15000),
     (''cabin_filter'', 15000), (''brake_inspection'', 15000),
     (''transmission_service'', 60000), (''coolant_flush'', 60000),
     (''spark_plugs'', 45000), (''major_service'', 30000),
     (''differential_service'', 45000), (''fuel_filter'', 30000)]"

definition maintenance_brand_multipliers :: "(string \<times> rat) list" where
  "maintenance_brand_multipliers =
    [(''Toyota'', 0.85), (''Honda'', 0.87), (''Mazda'', 0.90), (''Hyundai'', 0.92),
     (''Kia'', 0.92), (''Nissan'', 0.95), (''Subaru'', 0.98), (''Chevrolet'', 1.05),
     (''Ford'', 1.08), (''Ram'', 1.12), (''BMW'', 1.35), (''Mercedes-Benz'', 1.40),
     (''Audi'', 1.32), (''Volkswagen'', 1.15), (''Volvo'', 1.25)]"

text \<open>
  \<open>a / b\<close> on two integers is true division and raises \<open>ZeroDivisionError\<close> for
  \<open>b = 0\<close>; \<open>int(x)\<close> truncates towards zero.
\<close>

definition py_truediv :: "int \<Rightarrow> int \<Rightarrow> py_error + rat" where
  "py_truediv a b = (if b = 0 then Inl ZeroDivisionError else Inr (of_int a / of_int b))"

definition py_int :: "rat \<Rightarrow> int" where
  "py_int x = (if 0 \<le> x then \<lfloor>x\<rfloor> else \<lceil>x\<rceil>)"

text \<open>\<open>service_type.replace('_', ' ').title()\<close>, on ASCII letters.\<close>

definition is_lower_char :: "char \<Rightarrow> bool" where
  "is_lower_char c = (let n = (of_char c :: nat) in 97 \<le> n \<and> n \<le> 122)"

definition is_upper_char :: "char \<Rightarrow> bool" where
  "is_upper_char c = (let n = (of_char c :: nat) in 65 \<le> n \<and> n \<le> 90)"

definition upper_char :: "char \<Rightarrow> char" where
  "upper_char c = (if is_lower_char c then char_of ((of_char c :: nat) - 32) else c)"

fun title_from :: "bool \<Rightarrow> string \<Rightarrow> string" where
  "title_from previous_is_cased [] = []"
| "title_from previous_is_cased (c # cs) =
    (if is_lower_char c then
       (if previous_is_cased then c else upper_char c) # title_from True cs
     else if is_upper_char c then
       (if previous_is_cased then lower_char c else c) # title_from True cs
     else c # title_from False cs)"

definition title :: "string \<Rightarrow> string" where
  "title s = title_from False s"

definition replace_char :: "char \<Rightarrow> char \<Rightarrow> string \<Rightarrow> string" where
  "replace_char old new s = map (\<lambda>c. if c = old then new else c) s"

definition service_name :: "string \<Rightarrow> string" where
  "service_name service_type = title (replace_char (CHR ''_'') (CHR '' '') service_type)"

text \<open>
  A service line item and a year of a maintenance schedule. The fields written as
  options are the keys that only some producers of these dictionaries write.
\<close>

record service_item =
  svc_service :: string
  svc_frequency :: int
  svc_cost_per_service :: rat
  svc_total_cost :: rat
  svc_due_at_mileage :: "int option"
  svc_shop_type :: "string option"
  svc_interval_based :: "bool option"
  svc_warranty_covered :: "rat option"

record maintenance_year =
  my_year :: int
  my_total_mileage :: int
  my_starting_year_mileage :: "int option"
  my_ending_year_mileage :: "int option"
  my_services :: "service_item list"
  my_total_year_cost :: rat
  my_warranty_discount :: "rat option"
  my_brand_multiplier :: "rat option"
  my_shop_multiplier :: "rat option"
  my_regional_multiplier :: "rat option"

text \<open>
  The inner loop \<open>for service_type, interval in self.service_intervals.items()\<close> of
  \<open>get_maintenance_schedule\<close>, over the items that are left; the result is the list of
  the services it appends to \<open>year_services\<close>.
\<close>

fun year_services ::
  "(string \<times> int) list \<Rightarrow> int \<Rightarrow> int \<Rightarrow> int \<Rightarrow> int \<Rightarrow> py_error + service_item list" where
  "year_services [] starting_mileage annual_mileage year total_mileage = Inr []"
| "year_services ((service_type, interval) # items) starting_mileage annual_mileage year
       total_mileage =
    (let previous_total_mileage = starting_mileage + (annual_mileage * (year - 1)) in
     case py_truediv total_mileage interval of
       Inl e \<Rightarrow> Inl e
     | Inr q_end \<Rightarrow>
      (case py_truediv previous_total_mileage interval of
         Inl e \<Rightarrow> Inl e
       | Inr q_previous \<Rightarrow>
          (let services_due_by_end_of_year = py_int q_end;
               services_due_by_end_of_previous_year = py_int q_previous;
               services_this_year =
                 services_due_by_end_of_year - services_due_by_end_of_previous_year
           in if services_this_year > 0 then
                (case lookup service_costs service_type of
                   Inl e \<Rightarrow> Inl e
                 | Inr cost \<Rightarrow>
                    (case year_services items starting_mileage annual_mileage year
                            total_mileage of
                       Inl e \<Rightarrow> Inl e
                     | Inr later \<Rightarrow>
                        Inr (\<lparr> svc_service = service_name service_type,
                               svc_frequency = services_this_year,
                               svc_cost_per_service = of_int cost,
                               svc_total_cost = of_int (cost * services_this_year),
                               svc_due_at_mileage =
                                 Some ((services_due_by_end_of_previous_year + 1) * interval),
                               svc_shop_type = None,
                               svc_interval_based = None,
                               svc_warranty_covered = None \<rparr> # later)))
              else year_services items starting_mileage annual_mileage year
                     total_mileage)))"

text \<open>
  The body of the loop over the years; the state is \<open>(total_mileage, schedule)\<close>.
  \<open>previous_total_mileage\<close> is the variable the inner loop assigns (the same value in
  each of its iterations; the table of intervals is not empty).
\<close>

definition maintenance_year_body ::
  "int \<Rightarrow> int \<Rightarrow> int \<Rightarrow> int \<times> maintenance_year list
    \<Rightarrow> py_error + int \<times> maintenance_year list" where
  "maintenance_year_body annual_mileage starting_mileage year st =
    (case st of (total_mileage, schedule) \<Rightarrow>
      (let total_mileage = total_mileage + annual_mileage;
           previous_total_mileage = starting_mileage + (annual_mileage * (year - 1))
       in case year_services service_intervals starting_mileage annual_mileage year
                 total_mileage of
            Inl e \<Rightarrow> Inl e
          | Inr services \<Rightarrow>
              Inr (total_mileage,
                   schedule @
                     [\<lparr> my_year = year,
                        my_total_mileage = total_mileage,
                        my_starting_year_mileage = Some previous_total_mileage,
                        my_ending_year_mileage = Some total_mileage,
                        my_services = services,
                        my_total_year_cost = sum_list (map svc_total_cost services),
                        my_warranty_discount = None,
                        my_brand_multiplier = None,
                        my_shop_multiplier = None,
                        my_regional_multiplier = None \<rparr>])))"

definition get_maintenance_schedule ::
  "int \<Rightarrow> int \<Rightarrow> int \<Rightarrow> py_error + maintenance_year list" where
  "get_maintenance_schedule annual_mileage years starting_mileage =
    (case for_range (maintenance_year_body annual_mileage starting_mileage) 1 years
            (starting_mileage, [])
     of Inl e \<Rightarrow> Inl e
      | Inr (total_mileage, schedule) \<Rightarrow> Inr schedule)"

text \<open>
  The number of times a year of a schedule bills the service with the given name: the
  frequency of its line item, and 0 when the year has no line item of that name.
\<close>

definition occurrences_this_year :: "string \<Rightarrow> maintenance_year \<Rightarrow> int" where
  "occurrences_this_year name y =
    sum_list (map svc_frequency (filter (\<lambda>s. svc_service s = name) (my_services y)))"

text \<open>The same count on a list of line items.\<close>

definition billed :: "string \<Rightarrow> service_item list \<Rightarrow> int" where
  "billed name items = sum_list (map svc_frequency (filter (\<lambda>s. svc_service s = name) items))"


section \<open>zip\_code\_utils.py: the regional cost multiplier\<close>

definition base_multipliers :: "(string \<times> rat) list" where
  "base_multipliers = [(''urban'', 1.15), (''suburban'', 1.0), (''rural'', 0.85)]"

definition high_cost_states :: "string list" where
  "high_cost_states = [''CA'', ''NY'', ''HI'', ''MA'', ''CT'', ''NJ'', ''AK'']"

definition low_cost_states :: "string list" where
  "low_cost_states = [''MS'', ''AL'', ''AR'', ''WV'', ''OK'', ''KS'', ''ND'', ''SD'']"

definition get_regional_cost_multiplier :: "string \<Rightarrow> string \<Rightarrow> rat" where
  "get_regional_cost_multiplier geography_type state_code =
    (let multiplier = get_or base_multipliers (lower geography_type) 1.0 in
     if state_code \<in> set high_cost_states then multiplier * 1.1
     else if state_code \<in> set low_cost_states then multiplier * 0.9
     else multiplier)"

section \<open>prediction\_service.py: the collaborators of the orchestrator\<close>

text \<open>
  The insurance, fuel, electricity and loan calculators and the vehicle database are
  modules of the repository that are not among its given sources. The orchestrator is
  modelled for any such collaborators: they are the fields of the record \<open>engines\<close>,
  each a function of the arguments the orchestrator passes.

  The maintenance calculator is the \<open>MaintenanceCalculator\<close> of maintenance\_utils.py and
  is called as the sources have it: see \<open>call_get_maintenance_schedule\<close> below.
\<close>

record vehicle_characteristics =
  vc_mpg :: "rat option"
  vc_efficiency :: "rat option"
  vc_mpge :: "rat option"
  vc_is_electric :: "bool option"
  vc_reliability_score :: "rat option"
  vc_market_segment :: "string option"

record premium_request =
  pq_vehicle_value :: rat
  pq_vehicle_make :: string
  pq_vehicle_year :: int
  pq_driver_age :: int
  pq_state :: string
  pq_coverage_type :: string
  pq_annual_mileage :: int
  pq_num_vehicles :: int
  pq_regional_multiplier :: rat
  pq_vehicle_model :: "string option"

record loan_year =
  ly_year :: int
  ly_annual_payment :: "rat option"

record engines =
  get_vehicle_characteristics :: "string \<Rightarrow> string \<Rightarrow> int \<Rightarrow> vehicle_characteristics"
  calculate_annual_premium :: "premium_request \<Rightarrow> rat"
  calculate_annual_fuel_cost :: "int \<Rightarrow> rat \<Rightarrow> rat \<Rightarrow> string \<Rightarrow> string \<Rightarrow> rat"
  calculate_annual_electricity_cost :: "int \<Rightarrow> rat \<Rightarrow> rat \<Rightarrow> string \<Rightarrow> rat"
  calculate_loan_payments :: "rat \<Rightarrow> rat \<Rightarrow> int \<Rightarrow> int \<Rightarrow> loan_year list"

text \<open>
  The orchestrator calls \<open>MaintenanceCalculator.get_maintenance_schedule\<close> in two ways.
  The lease calculation passes \<open>annual_mileage\<close>, \<open>years\<close> and \<open>starting_mileage\<close>;
  the purchase calculation passes three further keyword arguments, \<open>vehicle_make\<close>,
  \<open>driving_style\<close> and \<open>vehicle_model\<close>. The method of maintenance\_utils.py declares
  the parameters \<open>annual_mileage\<close>, \<open>years\<close> and \<open>starting_mileage\<close> only, so a call
  with any further keyword raises \<open>TypeError\<close> before the body runs. The further
  keywords of a call are its last argument here, \<open>None\<close> when there are none.
\<close>

definition call_get_maintenance_schedule ::
  "int \<Rightarrow> int \<Rightarrow> int \<Rightarrow> (string \<times> string \<times> string) option
    \<Rightarrow> py_error + maintenance_year list" where
  "call_get_maintenance_schedule annual_mileage years starting_mileage further_keywords =
    (case further_keywords of
       None \<Rightarrow> get_maintenance_schedule annual_mileage years starting_mileage
     | Some kw \<Rightarrow> Inl TypeError)"

section \<open>prediction\_service.py: affordability and assumptions\<close>

record affordability =
  af_annual_cost :: rat
  af_monthly_cost :: rat
  af_percentage_of_income :: rat
  af_is_affordable :: bool
  af_recommended_max_percentage :: rat
  af_monthly_budget_impact :: rat
  af_affordability_score :: rat

definition calculate_affordability :: "rat \<Rightarrow> rat \<Rightarrow> string \<Rightarrow> py_error + affordability" where
  "calculate_affordability annual_cost gross_income transaction_type =
    (let monthly_cost = annual_cost / 12 in
     if gross_income = 0 then Inl ZeroDivisionError
     else
       (let percentage_of_income = (annual_cost / gross_income) * 100;
            recommended_max = 10;
            is_affordable = (percentage_of_income \<le> recommended_max)
        in Inr \<lparr> af_annual_cost = annual_cost,
                 af_monthly_cost = monthly_cost,
                 af_percentage_of_income = percentage_of_income,
                 af_is_affordable = is_affordable,
                 af_recommended_max_percentage = recommended_max,
                 af_monthly_budget_impact = monthly_cost,
                 af_affordability_score =
                   (if percentage_of_income > 0
                    then min 100 ((recommended_max / percentage_of_income) * 100)
                    else 100) \<rparr>))"

record assumptions =
  as_depreciation_method :: string
  as_maintenance_source :: string
  as_insurance_basis :: string
  as_fuel_prices :: string
  as_regional_adjustments :: string
  as_reliability_score :: rat
  as_market_segment :: string
  as_calculation_date :: string
  as_data_sources :: "string list"

definition get_calculation_assumptions ::
  "input_data \<Rightarrow> vehicle_characteristics \<Rightarrow> py_error + assumptions" where
  "get_calculation_assumptions input_data vehicle_characteristics =
    (case required (in_geography_type input_data) of
       Inl e \<Rightarrow> Inl e
     | Inr geography_type \<Rightarrow>
      (case required (in_state input_data) of
         Inl e \<Rightarrow> Inl e
       | Inr state_code \<Rightarrow>
          Inr \<lparr> as_depreciation_method = ''Enhanced market-based model'',
                as_maintenance_source = ''Manufacturer schedules + historical data'',
                as_insurance_basis = ''State-specific rates with driver profile'',
                as_fuel_prices = ''Current regional averages'',
                as_regional_adjustments = geography_type @ '' geography in '' @ state_code,
                as_reliability_score =
                  get_default (vc_reliability_score vehicle_characteristics) 3.5,
                as_market_segment =
                  get_default (vc_market_segment vehicle_characteristics) ''standard'',
                as_calculation_date = ''2025-08-08'',
                as_data_sources =
                  [''Manufacturer MSRP data'', ''Regional fuel price databases'',
                   ''State insurance regulations'', ''Historical depreciation curves''] \<rparr>))"

section \<open>prediction\_service.py: adjusting the maintenance schedule of a purchase\<close>

definition adjust_shop_multipliers :: "(string \<times> rat) list" where
  "adjust_shop_multipliers =
    [(''dealership'', 1.15), (''independent'', 1.0), (''chain'', 1.05),
     (''specialty'', 1.1), (''diy'', 0.5)]"

definition base_wear_costs :: "(int \<times> rat) list" where
  "base_wear_costs =
    [(4, 100), (5, 150), (6, 200), (7, 300), (8, 400), (9, 500), (10, 600)]"

definition wear_shop_multipliers :: "(string \<times> rat) list" where
  "wear_shop_multipliers =
    [(''dealership'', 1.15), (''independent'', 1.0), (''chain'', 1.05), (''specialty'', 1.1)]"

definition calculate_year_specific_wear_maintenance ::
  "int \<Rightarrow> string \<Rightarrow> string \<Rightarrow> rat \<Rightarrow> rat" where
  "calculate_year_specific_wear_maintenance vehicle_age vehicle_make shop_type
       regional_multiplier =
    (let base_cost = get_or base_wear_costs (min vehicle_age 10) 600;
         brand_multiplier = get_or maintenance_brand_multipliers vehicle_make 1.0;
         shop_multiplier = get_or wear_shop_multipliers shop_type 1.0;
         wear_cost = base_cost * brand_multiplier * shop_multiplier * regional_multiplier
     in wear_cost)"

text \<open>One pass of the loop over the services of a year.\<close>

definition adjust_service :: "rat \<Rightarrow> rat \<Rightarrow> rat \<Rightarrow> string \<Rightarrow> service_item \<Rightarrow> service_item" where
  "adjust_service brand_multiplier shop_multiplier regional_multiplier shop_type service =
    (let base_cost = svc_cost_per_service service;
         adjusted_cost =
           (if brand_multiplier < 0.95 then base_cost * brand_multiplier
            else if brand_multiplier > 1.25 then base_cost * min brand_multiplier 1.4
            else base_cost * brand_multiplier);
         final_cost_per_service = adjusted_cost * shop_multiplier * regional_multiplier;
         total_cost_for_service = final_cost_per_service * of_int (svc_frequency service)
     in \<lparr> svc_service = svc_service service,
          svc_frequency = svc_frequency service,
          svc_cost_per_service = final_cost_per_service,
          svc_total_cost = total_cost_for_service,
          svc_due_at_mileage = None,
          svc_shop_type = Some shop_type,
          svc_interval_based = Some True,
          svc_warranty_covered = None \<rparr>)"

text \<open>
  One pass of the loop over the years of the base schedule. \<open>adjusted_total_cost\<close> is
  the sum of the total costs of the services appended to \<open>adjusted_services\<close>.
\<close>

definition adjust_year ::
  "rat \<Rightarrow> rat \<Rightarrow> rat \<Rightarrow> string \<Rightarrow> string \<Rightarrow> maintenance_year \<Rightarrow> maintenance_year" where
  "adjust_year brand_multiplier shop_multiplier regional_multiplier vehicle_make shop_type
       year_data =
    (let adjusted_services =
           map (adjust_service brand_multiplier shop_multiplier regional_multiplier shop_type)
             (my_services year_data);
         vehicle_age = my_year year_data;
         wear_cost =
           calculate_year_specific_wear_maintenance vehicle_age vehicle_make shop_type
             regional_multiplier;
         adjusted_services =
           (if vehicle_age > 3 \<and> wear_cost > 100 then
              adjusted_services @
                [\<lparr> svc_service = ''Additional Wear & Tear'',
                   svc_frequency = 1,
                   svc_cost_per_service = wear_cost,
                   svc_total_cost = wear_cost,
                   svc_due_at_mileage = None,
                   svc_shop_type = Some shop_type,
                   svc_interval_based = Some False,
                   svc_warranty_covered = None \<rparr>]
            else adjusted_services);
         adjusted_total_cost = sum_list (map svc_total_cost adjusted_services)
     in \<lparr> my_year = my_year year_data,
          my_total_mileage = my_total_mileage year_data,
          my_starting_year_mileage =
            Some (get_default (my_starting_year_mileage year_data) 0),
          my_ending_year_mileage = Some (get_default (my_ending_year_mileage year_data) 0),
          my_services = adjusted_services,
          my_total_year_cost = adjusted_total_cost,
          my_warranty_discount = None,
          my_brand_multiplier = Some brand_multiplier,
          my_shop_multiplier = Some shop_multiplier,
          my_regional_multiplier = Some regional_multiplier \<rparr>)"

definition adjust_maintenance_schedule ::
  "maintenance_year list \<Rightarrow> string \<Rightarrow> string \<Rightarrow> rat \<Rightarrow> maintenance_year list" where
  "adjust_maintenance_schedule base_schedule vehicle_make shop_type regional_multiplier =
    (let brand_multiplier = get_or maintenance_brand_multipliers vehicle_make 1.0;
         shop_multiplier = get_or adjust_shop_multipliers shop_type 1.0;
         regional_multiplier = max 0.8 (min 1.3 regional_multiplier)
     in map (adjust_year brand_multiplier shop_multiplier regional_multiplier vehicle_make
               shop_type)
          base_schedule)"

section \<open>prediction\_service.py: the purchase calculation\<close>

record purchase_row =
  pr_year :: int
  pr_ownership_year :: int
  pr_vehicle_age :: int
  pr_vehicle_model_year :: int
  pr_cumulative_mileage :: int
  pr_depreciation :: rat
  pr_maintenance :: rat
  pr_maintenance_activities :: "service_item list"
  pr_insurance :: rat
  pr_fuel_energy :: rat
  pr_financing :: rat
  pr_total_annual_cost :: rat

record purchase_totals =
  pt_depreciation :: rat
  pt_maintenance :: rat
  pt_insurance :: rat
  pt_fuel_energy :: rat
  pt_financing :: rat

record purchase_summary =
  ps_total_ownership_cost :: rat
  ps_average_annual_cost :: rat
  ps_cost_per_mile :: rat
  ps_final_vehicle_value :: rat
  ps_total_depreciation :: rat
  ps_purchase_price :: rat
  ps_original_msrp :: rat
  ps_is_used_vehicle :: bool
  ps_total_tco_with_depreciation :: rat
  ps_average_annual_tco :: rat
  ps_cost_per_mile_tco :: rat
  ps_out_of_pocket_total :: rat

record purchase_result =
  pres_summary :: purchase_summary
  pres_annual_breakdown :: "purchase_row list"
  pres_category_totals :: purchase_totals
  pres_depreciation_schedule :: "depreciation_entry list"
  pres_financing_schedule :: "loan_year list option"
  pres_maintenance_schedule :: "maintenance_year list"
  pres_affordability :: affordability
  pres_vehicle_characteristics :: vehicle_characteristics
  pres_assumptions :: assumptions
  pres_display_total_cost :: rat
  pres_display_includes_depreciation :: bool

text \<open>The test \<open>IMPROVED: Smarter used vehicle detection\<close>.\<close>

definition is_used_vehicle :: "int \<Rightarrow> int \<Rightarrow> int \<Rightarrow> bool" where
  "is_used_vehicle current_year model_year current_mileage =
    (let vehicle_age_at_purchase = current_year - model_year in
     if vehicle_age_at_purchase > 0 then True
     else if vehicle_age_at_purchase = 0 \<and> current_mileage > 3000 then True
     else False)"

definition purchase_depreciation_schedule ::
  "int \<Rightarrow> input_data \<Rightarrow> rat \<Rightarrow> int \<Rightarrow> int \<Rightarrow> py_error + depreciation_entry list" where
  "purchase_depreciation_schedule current_year input_data purchase_price current_mileage
       analysis_years =
    (if is_used_vehicle current_year (in_year input_data) current_mileage then
       calculate_realistic_used_vehicle_depreciation current_year input_data purchase_price
         analysis_years
     else
       (case required (in_annual_mileage input_data) of
          Inl e \<Rightarrow> Inl e
        | Inr annual_mileage \<Rightarrow>
            calculate_depreciation_schedule purchase_price (in_make input_data)
              (in_model input_data) (in_year input_data) annual_mileage analysis_years))"

definition purchase_financing_schedule ::
  "engines \<Rightarrow> input_data \<Rightarrow> rat \<Rightarrow> int \<Rightarrow> loan_year list option" where
  "purchase_financing_schedule E input_data purchase_price analysis_years =
    (if get_default (in_financing_type input_data) ''cash'' \<noteq> ''cash''
        \<or> get_default (in_loan_amount input_data) 0 > 0
        \<or> in_financing_option input_data = Some ''finance''
     then
       (let loan_amount = get_default (in_loan_amount input_data) (purchase_price * 0.8) in
        if loan_amount > 0 then
          Some (calculate_loan_payments E loan_amount
                  (get_default (in_interest_rate input_data) 5.0)
                  (get_default (in_loan_term input_data) 5)
                  analysis_years)
        else None)
     else None)"

text \<open>The premium of a year of a purchase, from the vehicle value the loop passes.\<close>

definition purchase_insurance ::
  "engines \<Rightarrow> input_data \<Rightarrow> rat \<Rightarrow> rat \<Rightarrow> py_error + rat" where
  "purchase_insurance E input_data regional_multiplier vehicle_value =
    (case required (in_state input_data) of
       Inl e \<Rightarrow> Inl e
     | Inr state_code \<Rightarrow>
      (case required (in_annual_mileage input_data) of
         Inl e \<Rightarrow> Inl e
       | Inr annual_mileage \<Rightarrow>
          Inr (calculate_annual_premium E
                \<lparr> pq_vehicle_value = vehicle_value,
                  pq_vehicle_make = in_make input_data,
                  pq_vehicle_year = in_year input_data,
                  pq_driver_age = get_default (in_driver_age input_data) 35,
                  pq_state = state_code,
                  pq_coverage_type =
                    get_default (in_coverage_type input_data) ''comprehensive'',
                  pq_annual_mileage = annual_mileage,
                  pq_num_vehicles = get_default (in_num_household_vehicles input_data) 2,
                  pq_regional_multiplier = regional_multiplier,
                  pq_vehicle_model = Some (in_model input_data) \<rparr>)))"

definition purchase_fuel ::
  "engines \<Rightarrow> input_data \<Rightarrow> vehicle_characteristics \<Rightarrow> py_error + rat" where
  "purchase_fuel E input_data vehicle_characteristics =
    (case required (in_annual_mileage input_data) of
       Inl e \<Rightarrow> Inl e
     | Inr annual_mileage \<Rightarrow>
        (if get_default (in_is_electric input_data) False then
           Inr (calculate_annual_electricity_cost E annual_mileage
                 (get_default (vc_efficiency vehicle_characteristics) 32)
                 (get_default (in_electricity_rate input_data) 0.12)
                 (get_default (in_charging_preference input_data) ''mixed''))
         else
           Inr (calculate_annual_fuel_cost E annual_mileage
                 (get_default (vc_mpg vehicle_characteristics) 25)
                 (get_default (in_fuel_price input_data) 3.50)
                 (get_default (in_driving_style input_data) ''normal'')
                 (get_default (in_terrain input_data) ''mixed''))))"

text \<open>
  The row of one year of the loop \<open>Calculate costs for each year\<close>. The loop starts at
  year 1, so the indices \<open>year - 1\<close> and \<open>year - 2\<close> it uses are not negative.
\<close>

definition purchase_year ::
  "engines \<Rightarrow> input_data \<Rightarrow> vehicle_characteristics \<Rightarrow> rat \<Rightarrow> rat \<Rightarrow> int
    \<Rightarrow> depreciation_entry list \<Rightarrow> maintenance_year list \<Rightarrow> loan_year list option
    \<Rightarrow> int \<Rightarrow> py_error + purchase_row" where
  "purchase_year E input_data vehicle_characteristics regional_multiplier purchase_price
       current_mileage depreciation_schedule adjusted_maintenance_schedule
       financing_schedule year =
    (let ownership_year = 2024 + year;
         annual_depreciation =
           (if year \<le> int (length depreciation_schedule) then
              (if year = 1 then
                 purchase_price - dep_vehicle_value (depreciation_schedule ! nat (year - 1))
               else dep_vehicle_value (depreciation_schedule ! nat (year - 2))
                    - dep_vehicle_value (depreciation_schedule ! nat (year - 1)))
            else 0);
         annual_maintenance =
           (if year \<le> int (length adjusted_maintenance_schedule)
            then my_total_year_cost (adjusted_maintenance_schedule ! nat (year - 1))
            else 0);
         maintenance_activities =
           (if year \<le> int (length adjusted_maintenance_schedule)
            then my_services (adjusted_maintenance_schedule ! nat (year - 1))
            else [])
     in case purchase_insurance E input_data regional_multiplier
               (if year \<le> int (length depreciation_schedule)
                then dep_vehicle_value (depreciation_schedule ! nat (year - 1))
                else purchase_price * 0.5) of
          Inl e \<Rightarrow> Inl e
        | Inr annual_insurance \<Rightarrow>
         (case purchase_fuel E input_data vehicle_characteristics of
            Inl e \<Rightarrow> Inl e
          | Inr annual_fuel \<Rightarrow>
           (case required (in_annual_mileage input_data) of
              Inl e \<Rightarrow> Inl e
            | Inr annual_mileage \<Rightarrow>
               (let annual_financing =
                      (case financing_schedule of
                         None \<Rightarrow> 0
                       | Some fs \<Rightarrow>
                           (if fs \<noteq> [] \<and> year \<le> int (length fs)
                            then get_default (ly_annual_payment (fs ! nat (year - 1))) 0
                            else 0));
                    total_annual =
                      annual_depreciation + annual_maintenance + annual_insurance
                        + annual_fuel + annual_financing
                in Inr \<lparr> pr_year = year,
                         pr_ownership_year = ownership_year,
                         pr_vehicle_age = ownership_year - in_year input_data,
                         pr_vehicle_model_year = in_year input_data,
                         pr_cumulative_mileage = current_mileage + (annual_mileage * year),
                         pr_depreciation = annual_depreciation,
                         pr_maintenance = annual_maintenance,
                         pr_maintenance_activities = maintenance_activities,
                         pr_insurance = annual_insurance,
                         pr_fuel_energy = annual_fuel,
                         pr_financing = annual_financing,
                         pr_total_annual_cost = total_annual \<rparr>))))"

text \<open>\<open>Add to totals\<close>.\<close>

definition add_to_purchase_totals :: "purchase_totals \<Rightarrow> purchase_row \<Rightarrow> purchase_totals" where
  "add_to_purchase_totals category_totals row =
    \<lparr> pt_depreciation = pt_depreciation category_totals + pr_depreciation row,
      pt_maintenance = pt_maintenance category_totals + pr_maintenance row,
      pt_insurance = pt_insurance category_totals + pr_insurance row,
      pt_fuel_energy = pt_fuel_energy category_totals + pr_fuel_energy row,
      pt_financing = pt_financing category_totals + pr_financing row \<rparr>"

text \<open>The body of the loop; the state is \<open>(annual_breakdown, category_totals)\<close>.\<close>

definition purchase_year_body ::
  "engines \<Rightarrow> input_data \<Rightarrow> vehicle_characteristics \<Rightarrow> rat \<Rightarrow> rat \<Rightarrow> int
    \<Rightarrow> depreciation_entry list \<Rightarrow> maintenance_year list \<Rightarrow> loan_year list option
    \<Rightarrow> int \<Rightarrow> purchase_row list \<times> purchase_totals
    \<Rightarrow> py_error + purchase_row list \<times> purchase_totals" where
  "purchase_year_body E input_data vehicle_characteristics regional_multiplier purchase_price
       current_mileage depreciation_schedule adjusted_maintenance_schedule
       financing_schedule year st =
    (case st of (annual_breakdown, category_totals) \<Rightarrow>
      (case purchase_year E input_data vehicle_characteristics regional_multiplier
              purchase_price current_mileage depreciation_schedule
              adjusted_maintenance_schedule financing_schedule year of
         Inl e \<Rightarrow> Inl e
       | Inr row \<Rightarrow>
           Inr (annual_breakdown @ [row], add_to_purchase_totals category_totals row)))"

text \<open>
  \<open>Calculate final metrics with proper cost separation\<close> and the returned dictionary.
  \<open>sum(category_totals.values())\<close> adds the five totals in the order of the keys.
\<close>

definition purchase_final ::
  "input_data \<Rightarrow> vehicle_characteristics \<Rightarrow> int \<Rightarrow> rat \<Rightarrow> int
    \<Rightarrow> depreciation_entry list \<Rightarrow> loan_year list option \<Rightarrow> maintenance_year list
    \<Rightarrow> purchase_row list \<Rightarrow> purchase_totals \<Rightarrow> py_error + purchase_result" where
  "purchase_final input_data vehicle_characteristics analysis_years purchase_price
       current_mileage depreciation_schedule financing_schedule
       adjusted_maintenance_schedule annual_breakdown category_totals =
    (let total_tco =
           0 + pt_depreciation category_totals + pt_maintenance category_totals
             + pt_insurance category_totals + pt_fuel_energy category_totals
             + pt_financing category_totals;
         out_of_pocket_total =
           pt_maintenance category_totals + pt_insurance category_totals
             + pt_fuel_energy category_totals + pt_financing category_totals
     in if analysis_years = 0 then Inl ZeroDivisionError
        else
         (let average_annual_tco = total_tco / of_int analysis_years;
              average_annual_out_of_pocket = out_of_pocket_total / of_int analysis_years
          in case required (in_annual_mileage input_data) of
               Inl e \<Rightarrow> Inl e
             | Inr annual_mileage \<Rightarrow>
              (let total_miles = annual_mileage * analysis_years;
                   cost_per_mile_out_of_pocket =
                     (if total_miles > 0 then out_of_pocket_total / of_int total_miles else 0);
                   cost_per_mile_tco =
                     (if total_miles > 0 then total_tco / of_int total_miles else 0);
                   final_vehicle_value =
                     (if depreciation_schedule \<noteq> []
                      then dep_vehicle_value (last depreciation_schedule)
                      else purchase_price * 0.15)
               in case calculate_affordability average_annual_out_of_pocket
                         (get_default (in_gross_income input_data) 60000) ''purchase'' of
                    Inl e \<Rightarrow> Inl e
                  | Inr afford \<Rightarrow>
                   (case get_calculation_assumptions input_data vehicle_characteristics of
                      Inl e \<Rightarrow> Inl e
                    | Inr assumed \<Rightarrow>
                       Inr \<lparr> pres_summary =
                               \<lparr> ps_total_ownership_cost = out_of_pocket_total,
                                 ps_average_annual_cost = average_annual_out_of_pocket,
                                 ps_cost_per_mile = cost_per_mile_out_of_pocket,
                                 ps_final_vehicle_value = final_vehicle_value,
                                 ps_total_depreciation = pt_depreciation category_totals,
                                 ps_purchase_price = purchase_price,
                                 ps_original_msrp =
                                   get_default (in_trim_msrp input_data) purchase_price,
                                 ps_is_used_vehicle = (current_mileage > 0),
                                 ps_total_tco_with_depreciation = total_tco,
                                 ps_average_annual_tco = average_annual_tco,
                                 ps_cost_per_mile_tco = cost_per_mile_tco,
                                 ps_out_of_pocket_total = out_of_pocket_total \<rparr>,
                             pres_annual_breakdown = annual_breakdown,
                             pres_category_totals = category_totals,
                             pres_depreciation_schedule = depreciation_schedule,
                             pres_financing_schedule = financing_schedule,
                             pres_maintenance_schedule = adjusted_maintenance_schedule,
                             pres_affordability = afford,
                             pres_vehicle_characteristics = vehicle_characteristics,
                             pres_assumptions = assumed,
                             pres_display_total_cost = out_of_pocket_total,
                             pres_display_includes_depreciation = False \<rparr>))))"

definition calculate_purchase_tco ::
  "engines \<Rightarrow> int \<Rightarrow> input_data \<Rightarrow> vehicle_characteristics \<Rightarrow> rat
    \<Rightarrow> py_error + purchase_result" where
  "calculate_purchase_tco E current_year input_data vehicle_characteristics
       regional_multiplier =
    (let analysis_years = get_default (in_analysis_years input_data) 5;
         purchase_price =
           get_default (in_price input_data) (get_default (in_trim_msrp input_data) 25000);
         current_mileage = get_default (in_current_mileage input_data) 0;
         category_totals =
           \<lparr> pt_depreciation = 0, pt_maintenance = 0, pt_insurance = 0,
             pt_fuel_energy = 0, pt_financing = 0 \<rparr>;
         annual_breakdown = []
     in case purchase_depreciation_schedule current_year input_data purchase_price
               current_mileage analysis_years of
          Inl e \<Rightarrow> Inl e
        | Inr depreciation_schedule \<Rightarrow>
         (let financing_schedule =
                purchase_financing_schedule E input_data purchase_price analysis_years
          in case required (in_annual_mileage input_data) of
               Inl e \<Rightarrow> Inl e
             | Inr annual_mileage \<Rightarrow>
              (case call_get_maintenance_schedule annual_mileage analysis_years
                      current_mileage
                      (Some (in_make input_data,
                             get_default (in_driving_style input_data) ''normal'',
                             in_model input_data)) of
                 Inl e \<Rightarrow> Inl e
               | Inr base_maintenance_schedule \<Rightarrow>
                  (let adjusted_maintenance_schedule =
                         adjust_maintenance_schedule base_maintenance_schedule
                           (in_make input_data)
                           (get_default (in_shop_type input_data) ''independent'')
                           regional_multiplier
                   in case for_range
                             (purchase_year_body E input_data vehicle_characteristics
                                regional_multiplier purchase_price current_mileage
                                depreciation_schedule adjusted_maintenance_schedule
                                financing_schedule)
                             1 analysis_years (annual_breakdown, category_totals) of
                        Inl e \<Rightarrow> Inl e
                      | Inr (annual_breakdown, category_totals) \<Rightarrow>
                          purchase_final input_data vehicle_characteristics analysis_years
                            purchase_price current_mileage depreciation_schedule
                            financing_schedule adjusted_maintenance_schedule
                            annual_breakdown category_totals))))"

text \<open>The purchase price the calculation starts from.\<close>

definition purchase_price_of :: "input_data \<Rightarrow> rat" where
  "purchase_price_of inp = get_default (in_price inp) (get_default (in_trim_msrp inp) 25000)"


section \<open>prediction\_service.py: the lease calculation\<close>

record lease_row =
  lr_year :: int
  lr_ownership_year :: int
  lr_lease_year :: int
  lr_vehicle_age :: int
  lr_vehicle_model_year :: int
  lr_lease_payment :: rat
  lr_maintenance :: rat
  lr_maintenance_activities :: "service_item list"
  lr_cumulative_mileage :: int
  lr_insurance :: rat
  lr_fuel_energy :: rat
  lr_fees_penalties :: rat
  lr_total_annual_cost :: rat

record lease_totals =
  lt_lease_payments :: rat
  lt_maintenance :: rat
  lt_insurance :: rat
  lt_fuel_energy :: rat
  lt_fees_penalties :: rat

record lease_summary =
  ls_total_lease_cost :: rat
  ls_average_annual_cost :: rat
  ls_average_monthly_cost :: rat
  ls_cost_per_mile :: rat
  ls_down_payment :: rat

record lease_result =
  lres_summary :: lease_summary
  lres_annual_breakdown :: "lease_row list"
  lres_category_totals :: lease_totals
  lres_maintenance_schedule :: "maintenance_year list"
  lres_affordability :: affordability
  lres_vehicle_characteristics :: vehicle_characteristics
  lres_assumptions :: assumptions

text \<open>\<open>_adjust_lease_maintenance_schedule\<close>: the warranty discount of a lease year.\<close>

definition lease_warranty_discount :: "int \<Rightarrow> rat" where
  "lease_warranty_discount lease_year =
    (if lease_year \<le> 2 then 0.6 else if lease_year \<le> 3 then 0.4 else 0.2)"

definition lease_full_cost :: "rat \<Rightarrow> rat \<Rightarrow> rat \<Rightarrow> service_item \<Rightarrow> rat" where
  "lease_full_cost brand_multiplier shop_multiplier regional_multiplier service =
    svc_cost_per_service service * brand_multiplier * shop_multiplier * regional_multiplier"

definition lease_service ::
  "rat \<Rightarrow> rat \<Rightarrow> rat \<Rightarrow> rat \<Rightarrow> service_item \<Rightarrow> service_item" where
  "lease_service brand_multiplier shop_multiplier regional_multiplier warranty_discount
       service =
    (let full_cost =
           lease_full_cost brand_multiplier shop_multiplier regional_multiplier service;
         out_of_pocket_cost = full_cost * (1 - warranty_discount)
     in \<lparr> svc_service = svc_service service,
          svc_frequency = svc_frequency service,
          svc_cost_per_service = out_of_pocket_cost,
          svc_total_cost = out_of_pocket_cost * of_int (svc_frequency service),
          svc_due_at_mileage = None,
          svc_shop_type = Some ''dealership'',
          svc_interval_based = Some True,
          svc_warranty_covered =
            Some (full_cost * warranty_discount * of_int (svc_frequency service)) \<rparr>)"

text \<open>
  One pass of the loop over the years of the base schedule: a service is kept when its
  out-of-pocket cost is more than 5, and \<open>adjusted_total_cost\<close> is the sum of the
  total costs of the services appended.
\<close>

definition adjust_lease_year :: "rat \<Rightarrow> rat \<Rightarrow> rat \<Rightarrow> maintenance_year \<Rightarrow> maintenance_year" where
  "adjust_lease_year brand_multiplier shop_multiplier regional_multiplier year_data =
    (let lease_year = my_year year_data;
         warranty_discount = lease_warranty_discount lease_year;
         adjusted_services =
           map (lease_service brand_multiplier shop_multiplier regional_multiplier
                  warranty_discount)
             (filter
                (\<lambda>service.
                   lease_full_cost brand_multiplier shop_multiplier regional_multiplier
                     service * (1 - warranty_discount) > 5)
                (my_services year_data));
         wear_cost = 100 * brand_multiplier * regional_multiplier;
         adjusted_services =
           (if lease_year > 3 then
              adjusted_services @
                [\<lparr> svc_service = ''Minor Wear Items'',
                   svc_frequency = 1,
                   svc_cost_per_service = wear_cost,
                   svc_total_cost = wear_cost,
                   svc_due_at_mileage = None,
                   svc_shop_type = Some ''dealership'',
                   svc_interval_based = Some False,
                   svc_warranty_covered = Some 0 \<rparr>]
            else adjusted_services);
         adjusted_total_cost = sum_list (map svc_total_cost adjusted_services)
     in \<lparr> my_year = lease_year,
          my_total_mileage = my_total_mileage year_data,
          my_starting_year_mileage = None,
          my_ending_year_mileage = None,
          my_services = adjusted_services,
          my_total_year_cost = adjusted_total_cost,
          my_warranty_discount = Some warranty_discount,
          my_brand_multiplier = Some brand_multiplier,
          my_shop_multiplier = Some shop_multiplier,
          my_regional_multiplier = Some regional_multiplier \<rparr>)"

definition adjust_lease_maintenance_schedule ::
  "maintenance_year list \<Rightarrow> string \<Rightarrow> rat \<Rightarrow> maintenance_year list" where
  "adjust_lease_maintenance_schedule base_schedule vehicle_make regional_multiplier =
    (let brand_multiplier = get_or maintenance_brand_multipliers vehicle_make 1.0;
         shop_multiplier = 1.2
     in map (adjust_lease_year brand_multiplier shop_multiplier regional_multiplier)
          base_schedule)"

definition calculate_lease_fees_and_penalties :: "int \<Rightarrow> int \<Rightarrow> int \<Rightarrow> rat \<Rightarrow> rat" where
  "calculate_lease_fees_and_penalties actual_mileage allowed_mileage lease_year vehicle_value =
    (let fees = 0;
         fees =
           (if actual_mileage > allowed_mileage then
              (let overage_miles = actual_mileage - allowed_mileage;
                   overage_rate = 0.20
               in fees + of_int overage_miles * overage_rate)
            else fees);
         wear_tear_rate = vehicle_value * 0.001
     in fees + wear_tear_rate)"

text \<open>The premium of a year of a lease, from the vehicle value the loop passes.\<close>

definition lease_insurance ::
  "engines \<Rightarrow> input_data \<Rightarrow> rat \<Rightarrow> int \<Rightarrow> rat \<Rightarrow> py_error + rat" where
  "lease_insurance E input_data regional_multiplier annual_mileage_limit vehicle_value =
    (case required (in_user_age input_data) of
       Inl e \<Rightarrow> Inl e
     | Inr user_age \<Rightarrow>
      (case required (in_state input_data) of
         Inl e \<Rightarrow> Inl e
       | Inr state_code \<Rightarrow>
        (case required (in_num_household_vehicles input_data) of
           Inl e \<Rightarrow> Inl e
         | Inr num_household_vehicles \<Rightarrow>
            Inr (calculate_annual_premium E
                  \<lparr> pq_vehicle_value = vehicle_value,
                    pq_vehicle_make = in_make input_data,
                    pq_vehicle_year = in_year input_data,
                    pq_driver_age = user_age,
                    pq_state = state_code,
                    pq_coverage_type = ''comprehensive'',
                    pq_annual_mileage = annual_mileage_limit,
                    pq_num_vehicles = num_household_vehicles,
                    pq_regional_multiplier = regional_multiplier,
                    pq_vehicle_model = None \<rparr>))))"

definition lease_fuel ::
  "engines \<Rightarrow> input_data \<Rightarrow> vehicle_characteristics \<Rightarrow> int \<Rightarrow> py_error + rat" where
  "lease_fuel E input_data vehicle_characteristics annual_mileage_limit =
    (if get_default (vc_is_electric vehicle_characteristics) False then
       Inr (calculate_annual_electricity_cost E annual_mileage_limit
             (get_default (vc_mpge vehicle_characteristics) 100)
             (get_default (in_electricity_rate input_data) 0.12)
             (get_default (in_charging_pref input_data) ''mixed''))
     else
       (case required (in_fuel_price input_data) of
          Inl e \<Rightarrow> Inl e
        | Inr fuel_price \<Rightarrow>
         (case required (in_driving_style input_data) of
            Inl e \<Rightarrow> Inl e
          | Inr driving_style \<Rightarrow>
           (case required (in_terrain input_data) of
              Inl e \<Rightarrow> Inl e
            | Inr terrain \<Rightarrow>
               Inr (calculate_annual_fuel_cost E annual_mileage_limit
                     (get_default (vc_mpg vehicle_characteristics) 25)
                     fuel_price driving_style terrain)))))"

text \<open>
  The row of one year of the loop \<open>Calculate year-by-year costs\<close>;
  \<open>lease_start_year\<close> is the year read from the clock.
\<close>

definition lease_year_row ::
  "engines \<Rightarrow> int \<Rightarrow> input_data \<Rightarrow> vehicle_characteristics \<Rightarrow> rat \<Rightarrow> rat \<Rightarrow> int
    \<Rightarrow> maintenance_year list \<Rightarrow> int \<Rightarrow> py_error + lease_row" where
  "lease_year_row E lease_start_year input_data vehicle_characteristics regional_multiplier
       monthly_payment annual_mileage_limit lease_maintenance_schedule year =
    (let ownership_year = lease_start_year + year - 1;
         current_mileage = annual_mileage_limit * year;
         annual_lease_payment = monthly_payment * 12;
         annual_maintenance =
           (if year \<le> int (length lease_maintenance_schedule)
            then my_total_year_cost (lease_maintenance_schedule ! nat (year - 1))
            else 0);
         maintenance_activities =
           (if year \<le> int (length lease_maintenance_schedule)
            then my_services (lease_maintenance_schedule ! nat (year - 1))
            else [])
     in case required (in_trim_msrp input_data) of
          Inl e \<Rightarrow> Inl e
        | Inr vehicle_value \<Rightarrow>
         (case lease_insurance E input_data regional_multiplier annual_mileage_limit
                 vehicle_value of
            Inl e \<Rightarrow> Inl e
          | Inr annual_insurance \<Rightarrow>
           (case lease_fuel E input_data vehicle_characteristics annual_mileage_limit of
              Inl e \<Rightarrow> Inl e
            | Inr annual_fuel \<Rightarrow>
               (let annual_fees =
                      calculate_lease_fees_and_penalties
                        (get_default (in_annual_mileage input_data) annual_mileage_limit)
                        annual_mileage_limit year vehicle_value;
                    total_annual =
                      annual_lease_payment + annual_maintenance + annual_insurance
                        + annual_fuel + annual_fees
                in Inr \<lparr> lr_year = year,
                         lr_ownership_year = ownership_year,
                         lr_lease_year = year,
                         lr_vehicle_age = ownership_year - in_year input_data,
                         lr_vehicle_model_year = in_year input_data,
                         lr_lease_payment = annual_lease_payment,
                         lr_maintenance = annual_maintenance,
                         lr_maintenance_activities = maintenance_activities,
                         lr_cumulative_mileage = current_mileage,
                         lr_insurance = annual_insurance,
                         lr_fuel_energy = annual_fuel,
                         lr_fees_penalties = annual_fees,
                         lr_total_annual_cost = total_annual \<rparr>))))"

definition add_to_lease_totals :: "lease_totals \<Rightarrow> lease_row \<Rightarrow> lease_totals" where
  "add_to_lease_totals category_totals row =
    \<lparr> lt_lease_payments = lt_lease_payments category_totals + lr_lease_payment row,
      lt_maintenance = lt_maintenance category_totals + lr_maintenance row,
      lt_insurance = lt_insurance category_totals + lr_insurance row,
      lt_fuel_energy = lt_fuel_energy category_totals + lr_fuel_energy row,
      lt_fees_penalties = lt_fees_penalties category_totals + lr_fees_penalties row \<rparr>"

text \<open>The body of the loop; the state is \<open>(annual_breakdown, category_totals)\<close>.\<close>

definition lease_year_body ::
  "engines \<Rightarrow> int \<Rightarrow> input_data \<Rightarrow> vehicle_characteristics \<Rightarrow> rat \<Rightarrow> rat \<Rightarrow> int
    \<Rightarrow> maintenance_year list \<Rightarrow> int \<Rightarrow> lease_row list \<times> lease_totals
    \<Rightarrow> py_error + lease_row list \<times> lease_totals" where
  "lease_year_body E lease_start_year input_data vehicle_characteristics regional_multiplier
       monthly_payment annual_mileage_limit lease_maintenance_schedule year st =
    (case st of (annual_breakdown, category_totals) \<Rightarrow>
      (case lease_year_row E lease_start_year input_data vehicle_characteristics
              regional_multiplier monthly_payment annual_mileage_limit
              lease_maintenance_schedule year of
         Inl e \<Rightarrow> Inl e
       | Inr row \<Rightarrow>
           Inr (annual_breakdown @ [row], add_to_lease_totals category_totals row)))"

text \<open>\<open>Calculate summary metrics\<close>, the affordability and the returned dictionary.\<close>

definition lease_final ::
  "input_data \<Rightarrow> vehicle_characteristics \<Rightarrow> int \<Rightarrow> int \<Rightarrow> rat \<Rightarrow> maintenance_year list
    \<Rightarrow> lease_row list \<Rightarrow> lease_totals \<Rightarrow> py_error + lease_result" where
  "lease_final input_data vehicle_characteristics lease_term annual_mileage_limit down_payment
       lease_maintenance_schedule annual_breakdown category_totals =
    (let total_lease_cost =
           0 + lt_lease_payments category_totals + lt_maintenance category_totals
             + lt_insurance category_totals + lt_fuel_energy category_totals
             + lt_fees_penalties category_totals + down_payment
     in if lease_term = 0 then Inl ZeroDivisionError
        else
         (let average_annual_cost = total_lease_cost / of_int lease_term;
              average_monthly_cost = total_lease_cost / of_int (lease_term * 12);
              total_miles = annual_mileage_limit * lease_term;
              cost_per_mile =
                (if total_miles > 0 then total_lease_cost / of_int total_miles else 0)
          in case required (in_gross_income input_data) of
               Inl e \<Rightarrow> Inl e
             | Inr gross_income \<Rightarrow>
              (case calculate_affordability average_annual_cost gross_income ''lease'' of
                 Inl e \<Rightarrow> Inl e
               | Inr afford \<Rightarrow>
                (case get_calculation_assumptions input_data vehicle_characteristics of
                   Inl e \<Rightarrow> Inl e
                 | Inr assumed \<Rightarrow>
                    Inr \<lparr> lres_summary =
                            \<lparr> ls_total_lease_cost = total_lease_cost,
                              ls_average_annual_cost = average_annual_cost,
                              ls_average_monthly_cost = average_monthly_cost,
                              ls_cost_per_mile = cost_per_mile,
                              ls_down_payment = down_payment \<rparr>,
                          lres_annual_breakdown = annual_breakdown,
                          lres_category_totals = category_totals,
                          lres_maintenance_schedule = lease_maintenance_schedule,
                          lres_affordability = afford,
                          lres_vehicle_characteristics = vehicle_characteristics,
                          lres_assumptions = assumed \<rparr>))))"

definition calculate_lease_tco ::
  "engines \<Rightarrow> int \<Rightarrow> input_data \<Rightarrow> vehicle_characteristics \<Rightarrow> rat
    \<Rightarrow> py_error + lease_result" where
  "calculate_lease_tco E current_year input_data vehicle_characteristics regional_multiplier =
    (case required (in_analysis_years input_data) of
       Inl e \<Rightarrow> Inl e
     | Inr lease_term \<Rightarrow>
      (case required (in_lease_monthly_payment input_data) of
         Inl e \<Rightarrow> Inl e
       | Inr monthly_payment \<Rightarrow>
        (case required (in_lease_mileage_limit input_data) of
           Inl e \<Rightarrow> Inl e
         | Inr annual_mileage_limit \<Rightarrow>
            (let down_payment = get_default (in_down_payment input_data) 0;
                 starting_mileage = get_default (in_current_mileage input_data) 0
             in case call_get_maintenance_schedule annual_mileage_limit lease_term
                       starting_mileage None of
                  Inl e \<Rightarrow> Inl e
                | Inr base_maintenance_schedule \<Rightarrow>
                   (let lease_maintenance_schedule =
                          adjust_lease_maintenance_schedule base_maintenance_schedule
                            (in_make input_data) regional_multiplier;
                        annual_breakdown = [];
                        category_totals =
                          \<lparr> lt_lease_payments = 0, lt_maintenance = 0, lt_insurance = 0,
                            lt_fuel_energy = 0, lt_fees_penalties = 0 \<rparr>;
                        lease_start_year = current_year
                    in case for_range
                              (lease_year_body E lease_start_year input_data
                                 vehicle_characteristics regional_multiplier monthly_payment
                                 annual_mileage_limit lease_maintenance_schedule)
                              1 lease_term (annual_breakdown, category_totals) of
                         Inl e \<Rightarrow> Inl e
                       | Inr (annual_breakdown, category_totals) \<Rightarrow>
                           lease_final input_data vehicle_characteristics lease_term
                             annual_mileage_limit down_payment lease_maintenance_schedule
                             annual_breakdown category_totals)))))"

section \<open>prediction\_service.py: the entry point\<close>

datatype tco_result = Purchase_result purchase_result | Lease_result lease_result

text \<open>
  \<open>calculate_total_cost_of_ownership\<close>. The parameter \<open>current_year\<close> is the year the
  two calculations read from the clock with \<open>datetime.now().year\<close>.
\<close>

definition calculate_total_cost_of_ownership ::
  "engines \<Rightarrow> int \<Rightarrow> input_data \<Rightarrow> py_error + tco_result" where
  "calculate_total_cost_of_ownership E current_year input_data =
    (let vehicle_characteristics =
           get_vehicle_characteristics E (in_make input_data) (in_model input_data)
             (in_year input_data);
         regional_multiplier =
           get_regional_cost_multiplier (get_default (in_zip_code input_data) '''')
             (get_default (in_state input_data) '''');
         analysis_years = get_default (in_analysis_years input_data) 5
     in if lower (get_default (in_transaction_type input_data) ''purchase'') = ''lease'' then
          (case calculate_lease_tco E current_year input_data vehicle_characteristics
                  regional_multiplier of
             Inl e \<Rightarrow> Inl e
           | Inr r \<Rightarrow> Inr (Lease_result r))
        else
          (case calculate_purchase_tco E current_year input_data vehicle_characteristics
                  regional_multiplier of
             Inl e \<Rightarrow> Inl e
           | Inr r \<Rightarrow> Inr (Purchase_result r)))"

section \<open>Sample collaborators and inputs\<close>

text \<open>
  Modelled from the spec: the insurance, fuel, electricity and loan calculators and the
  vehicle database are missing from the sources. These stand-ins follow the contracts
  of the specification as far as a concrete run needs them: a premium that is
  proportional to the vehicle value it is given, a fuel cost of
  \<open>(annual_mileage / mpg) * fuel_price\<close>, an electricity cost from the
  kilowatt-hours per mile, no loan schedule, and a vehicle database that knows nothing
  about the vehicle. They are used only to run the orchestrator on concrete inputs;
  the general theorems hold for all collaborators.
\<close>

definition sample_engines :: engines where
  "sample_engines =
    \<lparr> get_vehicle_characteristics =
        (\<lambda>vehicle_make vehicle_model model_year.
           \<lparr> vc_mpg = None, vc_efficiency = None, vc_mpge = None, vc_is_electric = None,
             vc_reliability_score = None, vc_market_segment = None \<rparr>),
      calculate_annual_premium = (\<lambda>request. pq_vehicle_value request * 0.04),
      calculate_annual_fuel_cost =
        (\<lambda>annual_mileage mpg fuel_price driving_style terrain.
           if mpg = 0 then 0 else of_int annual_mileage / mpg * fuel_price),
      calculate_annual_electricity_cost =
        (\<lambda>annual_mileage vehicle_efficiency electricity_rate charging_preference.
           if vehicle_efficiency = 0 then 0
           else of_int annual_mileage * (33.7 / vehicle_efficiency) * electricity_rate),
      calculate_loan_payments =
        (\<lambda>loan_amount interest_rate loan_term_years analysis_years. []) \<rparr>"

text \<open>A three-year lease of a new Toyota Camry.\<close>

definition sample_lease :: input_data where
  "sample_lease =
    (minimal_input ''Toyota'' ''Camry'' 2025)
      \<lparr> in_state := Some ''CA'', in_geography_type := Some ''urban'',
        in_transaction_type := Some ''lease'', in_analysis_years := Some 3,
        in_trim_msrp := Some 28000, in_annual_mileage := Some 15000,
        in_driving_style := Some ''normal'', in_terrain := Some ''flat'',
        in_user_age := Some 35, in_num_household_vehicles := Some 2,
        in_fuel_price := Some 3.5, in_gross_income := Some 60000,
        in_lease_monthly_payment := Some 350, in_lease_mileage_limit := Some 12000 \<rparr>"

text \<open>A purchase of the same vehicle, new, for three years.\<close>

definition sample_purchase :: input_data where
  "sample_purchase =
    (minimal_input ''Toyota'' ''Camry'' 2025)
      \<lparr> in_state := Some ''CA'', in_geography_type := Some ''urban'',
        in_transaction_type := Some ''purchase'', in_analysis_years := Some 3,
        in_price := Some 28000, in_annual_mileage := Some 12000 \<rparr>"

text \<open>
  The sample lease with a horizon of 16 years and of -1 years, and the sample purchase
  with the transaction type \<open>rent\<close>.
\<close>

definition long_lease :: input_data where
  "long_lease = sample_lease \<lparr> in_analysis_years := Some 16 \<rparr>"

definition negative_lease :: input_data where
  "negative_lease = sample_lease \<lparr> in_analysis_years := Some (- 1) \<rparr>"

definition rent_purchase :: input_data where
  "rent_purchase = sample_purchase \<lparr> in_transaction_type := Some ''rent'' \<rparr>"

text \<open>
  A lease row and a lease result without the two fields that are computed from the
  year read from the clock, \<open>ownership_year\<close> and \<open>vehicle_age\<close>.
\<close>

definition row_without_clock :: "lease_row \<Rightarrow> lease_row" where
  "row_without_clock row = row \<lparr> lr_ownership_year := 0, lr_vehicle_age := 0 \<rparr>"

definition lease_without_clock :: "lease_result \<Rightarrow> lease_result" where
  "lease_without_clock l =
    l \<lparr> lres_annual_breakdown := map row_without_clock (lres_annual_breakdown l) \<rparr>"

text \<open>Two states of the lease loop that differ at most in these two fields of the rows.\<close>

definition same_without_clock ::
  "lease_row list \<times> lease_totals \<Rightarrow> lease_row list \<times> lease_totals \<Rightarrow> bool" where
  "same_without_clock s1 s2 =
    (map row_without_clock (fst s1) = map row_without_clock (fst s2) \<and> snd s1 = snd s2)"


section \<open>Auxiliary facts\<close>

subsection \<open>The depreciation schedule\<close>

lemma get_or_cases: "get_or d k v = v \<or> (k, get_or d k v) \<in> set d"
  by (auto simp: get_or_def split: option.splits dest: map_of_SomeD)

lemma curves_complete:
  "list_all (\<lambda>curve. list_all (\<lambda>y. map_of curve y \<noteq> None) [1..15])
     (standard_curve # map snd segment_curves)"
  by code_simp

lemma curve_lookup_defined:
  assumes "1 \<le> y" "y \<le> 15"
  shows "\<exists>r. lookup (get_or segment_curves segment standard_curve) y = Inr r"
proof -
  let ?c = "get_or segment_curves segment standard_curve"
  have "?c \<in> set (standard_curve # map snd segment_curves)"
    using get_or_cases [of segment_curves segment standard_curve] by force
  moreover have "y \<in> set [1..15]" using assms by simp
  ultimately have "map_of ?c y \<noteq> None"
    using curves_complete unfolding list_all_iff by blast
  then show ?thesis by (auto simp: lookup_def)
qed

lemma rate_defined:
  assumes "1 \<le> year"
  shows "\<exists>r. get_cumulative_depreciation_rate year segment = Inr r"
proof (cases "year \<le> 15")
  case True
  then show ?thesis
    using curve_lookup_defined [OF assms, of segment]
    by (simp add: get_cumulative_depreciation_rate_def)
next
  case False
  obtain r where "lookup (get_or segment_curves segment standard_curve) 15 = Inr r"
    using curve_lookup_defined [of 15 segment] by auto
  with False show ?thesis
    by (simp add: get_cumulative_depreciation_rate_def Let_def)
qed

lemma depreciation_loop_telescopes:
  assumes "1 \<le> year" "year \<le> years + 1" "length schedule = nat (year - 1)"
    and "(\<Sum>e\<leftarrow>schedule. dep_annual_depreciation e) = iv - value_after iv schedule"
  shows "\<exists>s. depreciation_loop iv seg abm mm years year schedule = Inr s
           \<and> length s = nat years
           \<and> (\<Sum>e\<leftarrow>s. dep_annual_depreciation e) = iv - value_after iv s"
  using assms
proof (induction iv seg abm mm years year schedule rule: depreciation_loop.induct)
  case (1 iv seg abm mm years year schedule)
  show ?case
  proof (cases "year > years")
    case True
    with "1.prems" have "year = years + 1" by simp
    with "1.prems" True show ?thesis by (subst depreciation_loop.simps) simp
  next
    case False
    obtain r where r: "get_cumulative_depreciation_rate year seg = Inr r"
      using rate_defined [OF "1.prems"(1)] by blast
    have ne: "year \<noteq> 1 \<longrightarrow> schedule \<noteq> []"
      using "1.prems" by auto
    have e1: "year = 1 \<longrightarrow> schedule = []"
      using "1.prems" by auto
    define nv where "nv = iv * (1 - min (r * abm * mm) (get_or max_depreciation seg 0.92))"
    define ad where "ad = (if year = 1 then iv - nv else dep_vehicle_value (last schedule) - nv)"
    define ent where "ent = \<lparr> dep_year = year, dep_vehicle_value = nv,
       dep_annual_depreciation = ad,
       dep_rate = min (r * abm * mm) (get_or max_depreciation seg 0.92),
       dep_cumulative_depreciation = Some (iv - nv), dep_segment = Some seg,
       dep_brand_multiplier = Some abm, dep_mileage_multiplier = Some mm,
       dep_ownership_year = None, dep_vehicle_age = None \<rparr>"
    have step: "depreciation_loop iv seg abm mm years year schedule
        = depreciation_loop iv seg abm mm years (year + 1) (schedule @ [ent])"
      using False r ne
      by (subst depreciation_loop.simps) (simp add: Let_def nv_def ad_def ent_def)
    have inv: "(\<Sum>e\<leftarrow>schedule @ [ent]. dep_annual_depreciation e)
        = iv - value_after iv (schedule @ [ent])"
      using "1.prems"(4) e1 ne by (auto simp: value_after_def ent_def ad_def)
    have len: "length (schedule @ [ent]) = nat (year + 1 - 1)"
      using "1.prems" by auto
    have nie: "\<not> (year \<noteq> 1 \<and> schedule = [])" using ne by blast
    have "\<exists>s. depreciation_loop iv seg abm mm years (year + 1) (schedule @ [ent]) = Inr s
           \<and> length s = nat years
           \<and> (\<Sum>e\<leftarrow>s. dep_annual_depreciation e) = iv - value_after iv s"
    proof -
      have p1: "1 \<le> year + 1" and p2: "year + 1 \<le> years + 1"
        using "1.prems" False by auto
      show ?thesis
        using "1.IH" [OF False r refl refl refl refl nie refl p1 p2]
          len [unfolded ent_def nv_def ad_def] inv [unfolded ent_def nv_def ad_def]
        unfolding ent_def nv_def ad_def by blast
    qed
    with step show ?thesis by simp
  qed
qed

subsection \<open>Loops\<close>

lemma for_range_done: "stop < year \<Longrightarrow> for_range body year stop s = Inr s"
  by (subst for_range.simps) simp

lemma for_range_step:
  "year \<le> stop \<Longrightarrow> body year s = Inr s' \<Longrightarrow>
    for_range body year stop s = for_range body (year + 1) stop s'"
  by (subst for_range.simps) simp

lemma for_range_error:
  "year \<le> stop \<Longrightarrow> body year s = Inl e \<Longrightarrow> for_range body year stop s = Inl e"
  by (subst for_range.simps) simp

text \<open>An invariant that every iteration keeps holds when the loop returns.\<close>

lemma for_range_invariant:
  assumes "for_range body year stop s = Inr t"
    and "I year s"
    and "\<And>y u v. year \<le> y \<Longrightarrow> y \<le> stop \<Longrightarrow> I y u \<Longrightarrow> body y u = Inr v \<Longrightarrow> I (y + 1) v"
  shows "I (max year (stop + 1)) t"
  using assms
proof (induction body year stop s rule: for_range.induct)
  case (1 body year stop s)
  show ?case
  proof (cases "year > stop")
    case True
    then have "max year (stop + 1) = year" by simp
    with True "1.prems" show ?thesis by (simp add: for_range_done)
  next
    case False
    then obtain s' where b: "body year s = Inr s'"
      using "1.prems"(1) by (cases "body year s") (auto simp: for_range_error)
    have run: "for_range body (year + 1) stop s' = Inr t"
      using "1.prems"(1) False b by (simp add: for_range_step)
    have inv: "I (year + 1) s'"
      using "1.prems"(3) [of year s s'] "1.prems"(2) False b by simp
    have "I (max (year + 1) (stop + 1)) t"
    proof (rule "1.IH" [OF False b run inv])
      fix y u v
      assume "year + 1 \<le> y" "y \<le> stop" "I y u" "body y u = Inr v"
      then show "I (y + 1) v" using "1.prems"(3) [of y u v] by simp
    qed
    moreover have "max (year + 1) (stop + 1) = max year (stop + 1)"
      using False by simp
    ultimately show ?thesis by simp
  qed
qed

text \<open>A loop whose body cannot raise under the invariant returns.\<close>

lemma for_range_returns:
  assumes "I year s"
    and "\<And>y u. year \<le> y \<Longrightarrow> y \<le> stop \<Longrightarrow> I y u \<Longrightarrow> \<exists>v. body y u = Inr v \<and> I (y + 1) v"
  shows "\<exists>t. for_range body year stop s = Inr t"
  using assms
proof (induction body year stop s rule: for_range.induct)
  case (1 body year stop s)
  show ?case
  proof (cases "year > stop")
    case True
    then show ?thesis by (simp add: for_range_done)
  next
    case False
    obtain s' where b: "body year s = Inr s'" and inv: "I (year + 1) s'"
      using "1.prems"(2) [of year s] "1.prems"(1) False by auto
    have "\<exists>t. for_range body (year + 1) stop s' = Inr t"
    proof (rule "1.IH" [OF False b inv])
      fix y u
      assume "year + 1 \<le> y" "y \<le> stop" "I y u"
      then show "\<exists>v. body y u = Inr v \<and> I (y + 1) v" using "1.prems"(2) [of y u] by simp
    qed
    with False b show ?thesis by (simp add: for_range_step)
  qed
qed

subsection \<open>Depreciation of a used vehicle\<close>

lemma used_year_returns:
  "\<exists>v sch. used_depreciation_year cy inp iv rates bm y (cv, schedule) = Inr (v, schedule @ [sch])
      \<and> iv * 0.15 \<le> dep_vehicle_value sch"
proof -
  define x where "x = cv - cv * (rates ! nat (min (y - 1) (int (length rates) - 1)) * bm)"
  define nv where "nv = max x (iv * 0.15)"
  have fl: "iv * 0.15 \<le> nv" unfolding nv_def by (rule max.cobounded2)
  have "used_depreciation_year cy inp iv rates bm y (cv, schedule)
      = Inr (nv, schedule @
          [\<lparr> dep_year = y, dep_vehicle_value = nv, dep_annual_depreciation = cv - nv,
             dep_rate = rates ! nat (min (y - 1) (int (length rates) - 1)) * bm,
             dep_cumulative_depreciation = None, dep_segment = None,
             dep_brand_multiplier = None, dep_mileage_multiplier = None,
             dep_ownership_year = Some (cy + y - 1),
             dep_vehicle_age = Some (cy + y - 1 - in_year inp) \<rparr>])"
    unfolding used_depreciation_year_def Let_def nv_def x_def by simp
  with fl show ?thesis by (intro exI [of _ nv] exI) (rule conjI, assumption, simp)
qed


lemma used_schedule_returns:
  "\<exists>schedule.
     calculate_realistic_used_vehicle_depreciation current_year input_data initial_value
       analysis_years = Inr schedule
     \<and> length schedule = nat analysis_years
     \<and> (\<forall>e \<in> set schedule. initial_value * 0.15 \<le> dep_vehicle_value e)
     \<and> (1 \<le> analysis_years \<longrightarrow> initial_value * 0.15 \<le> dep_vehicle_value (last schedule))"
proof -
  define rates where "rates = used_annual_rates (current_year - in_year input_data)"
  define bm where "bm = get_or used_brand_multipliers (in_make input_data) 1.0"
  define body where
    "body = used_depreciation_year current_year input_data initial_value rates bm"
  define I where "I = (\<lambda>(y::int) (st :: rat \<times> depreciation_entry list).
      length (snd st) = nat (y - 1)
      \<and> (\<forall>e \<in> set (snd st). initial_value * 0.15 \<le> dep_vehicle_value e))"
  have I0: "I 1 (initial_value, [])" by (simp add: I_def)
  have step: "\<exists>v. body y u = Inr v \<and> I (y + 1) v" if "1 \<le> y" "I y u" for y u
  proof -
    obtain cv sch where u: "u = (cv, sch)" by (cases u)
    obtain v e where "body y (cv, sch) = Inr (v, sch @ [e])"
        "initial_value * 0.15 \<le> dep_vehicle_value e"
      using used_year_returns [of current_year input_data initial_value rates bm y cv sch]
      unfolding body_def by blast
    with that u show ?thesis by (auto simp: I_def nat_add_distrib)
  qed
  obtain t where t: "for_range body 1 analysis_years (initial_value, []) = Inr t"
    using for_range_returns [of I 1 "(initial_value, [])" analysis_years body] I0 step
    by blast
  have "I (max 1 (analysis_years + 1)) t"
    using for_range_invariant [OF t, of I] I0 step by force
  then have len: "length (snd t) = nat analysis_years"
    and fl: "\<forall>e \<in> set (snd t). initial_value * 0.15 \<le> dep_vehicle_value e"
    by (auto simp: I_def max_def)
  have res: "calculate_realistic_used_vehicle_depreciation current_year input_data
      initial_value analysis_years = Inr (snd t)"
    using t unfolding calculate_realistic_used_vehicle_depreciation_def Let_def
      body_def rates_def bm_def by (simp split: prod.splits)
  have "snd t \<noteq> []" if "1 \<le> analysis_years" using that len by auto
  with res len fl show ?thesis by auto
qed


subsection \<open>The maintenance schedule\<close>

lemma py_int_div:
  assumes "0 \<le> a" "0 < b"
  shows "py_int (of_int a / of_int b) = a div b"
proof -
  have "(0::rat) \<le> of_int a / of_int b" using assms by simp
  then show ?thesis by (simp add: py_int_def floor_divide_of_int_eq)
qed

lemma year_services_billed:
  assumes "\<forall>(st, i) \<in> set tbl. 0 < i \<and> map_of service_costs st \<noteq> None"
    and "distinct (map (service_name \<circ> fst) tbl)"
    and "0 \<le> sm + am * (year - 1)" and "sm + am * (year - 1) \<le> tm"
  shows "\<exists>items. year_services tbl sm am year tm = Inr items
    \<and> (\<forall>(st, i) \<in> set tbl.
          billed (service_name st) items = tm div i - (sm + am * (year - 1)) div i)
    \<and> (\<forall>n. n \<notin> (service_name \<circ> fst) ` set tbl \<longrightarrow> billed n items = 0)"
  using assms(1,2)
proof (induction tbl)
  case Nil
  then show ?case by (simp add: billed_def)
next
  case (Cons p tbl)
  obtain st i where p: "p = (st, i)" by (cases p)
  let ?prev = "sm + am * (year - 1)"
  have i: "0 < i" and c: "map_of service_costs st \<noteq> None"
    using Cons.prems(1) p by auto
  obtain cost where cost: "lookup service_costs st = Inr cost"
    using c by (auto simp: lookup_def)
  have tmn: "0 \<le> tm" using assms(3,4) by simp
  have qe: "py_truediv tm i = Inr (of_int tm / of_int i)"
    and qp: "py_truediv ?prev i = Inr (of_int ?prev / of_int i)"
    using i by (simp_all add: py_truediv_def)
  have de: "py_int (of_int tm / of_int i) = tm div i"
    and dp: "py_int (of_int ?prev / of_int i) = ?prev div i"
    using py_int_div [OF tmn i] py_int_div [OF assms(3) i] by simp_all
  have dp': "py_int ((of_int sm + of_int am * (of_int year - 1)) / of_int i) = ?prev div i"
    using dp by simp
  have mono: "?prev div i \<le> tm div i"
    using assms(4) i by (simp add: zdiv_mono1)
  obtain items where items: "year_services tbl sm am year tm = Inr items"
    and rest: "\<forall>(st', i') \<in> set tbl.
          billed (service_name st') items = tm div i' - ?prev div i'"
    and none: "\<forall>n. n \<notin> (service_name \<circ> fst) ` set tbl \<longrightarrow> billed n items = 0"
    using Cons.IH Cons.prems by auto
  have fresh: "service_name st \<notin> (service_name \<circ> fst) ` set tbl"
    using Cons.prems(2) p by auto
  have other: "service_name st' \<noteq> service_name st" if "(st', i') \<in> set tbl" for st' i'
    using fresh that by force
  show ?case
  proof (cases "tm div i - ?prev div i > 0")
    case True
    define item where "item = \<lparr> svc_service = service_name st,
        svc_frequency = tm div i - ?prev div i,
        svc_cost_per_service = of_int cost,
        svc_total_cost = of_int (cost * (tm div i - ?prev div i)),
        svc_due_at_mileage = Some ((?prev div i + 1) * i),
        svc_shop_type = None, svc_interval_based = None,
        svc_warranty_covered = None \<rparr>"
    have run: "year_services (p # tbl) sm am year tm = Inr (item # items)"
      using True by (simp add: p Let_def qe qp de dp' cost items item_def)
    have h: "billed (service_name st) (item # items) = tm div i - ?prev div i"
      using none fresh by (simp add: billed_def item_def)
    have t: "billed (service_name st') (item # items) = tm div i' - ?prev div i'"
      if "(st', i') \<in> set tbl" for st' i'
      using rest that other [OF that] by (auto simp: billed_def item_def)
    have n: "billed n (item # items) = 0" if "n \<notin> (service_name \<circ> fst) ` set (p # tbl)" for n
      using none that by (auto simp: billed_def item_def p)
    show ?thesis using run h t n by (auto simp: p)
  next
    case False
    with mono have z: "tm div i - ?prev div i = 0" by simp
    have run: "year_services (p # tbl) sm am year tm = Inr items"
      using z by (simp add: p Let_def qe qp de dp' items)
    have h: "billed (service_name st) items = tm div i - ?prev div i"
      using none fresh z by simp
    have n: "billed n items = 0" if "n \<notin> (service_name \<circ> fst) ` set (p # tbl)" for n
      using none that by auto
    show ?thesis using run h rest n by (auto simp: p)
  qed
qed

lemma service_names_distinct: "distinct (map (service_name \<circ> fst) service_intervals)"
  by code_simp

lemma service_intervals_ok:
  "list_all (\<lambda>(st, i). 0 < i \<and> map_of service_costs st \<noteq> None) service_intervals"
  by code_simp

lemma maintenance_year_billed:
  assumes "0 \<le> sm" "0 \<le> am" "1 \<le> year" "tm = sm + am * (year - 1)"
    and "(st, i) \<in> set service_intervals"
  shows "\<exists>y. maintenance_year_body am sm year (tm, schedule)
        = Inr (tm + am, schedule @ [y])
     \<and> occurrences_this_year (service_name st) y
        = (sm + am * year) div i - (sm + am * (year - 1)) div i"
proof -
  have ok: "\<forall>(st, i) \<in> set service_intervals. 0 < i \<and> map_of service_costs st \<noteq> None"
    using service_intervals_ok by (simp add: list_all_iff)
  have p0: "0 \<le> sm + am * (year - 1)" using assms by simp
  have p1: "sm + am * (year - 1) \<le> tm + am" using assms by simp
  obtain items where items: "year_services service_intervals sm am year (tm + am) = Inr items"
    and b: "\<forall>(st, i) \<in> set service_intervals.
          billed (service_name st) items = (tm + am) div i - (sm + am * (year - 1)) div i"
    using year_services_billed [OF ok service_names_distinct p0 p1] by blast
  have eq: "tm + am = sm + am * year" using assms(4) by (simp add: algebra_simps)
  have "billed (service_name st) items = (sm + am * year) div i - (sm + am * (year - 1)) div i"
    using b assms(5) eq by auto
  then show ?thesis
    by (simp add: maintenance_year_body_def Let_def items occurrences_this_year_def billed_def)
qed


subsection \<open>The orchestrator\<close>

lemma purchase_final_Inr:
  assumes "purchase_final inp vc n pp cm sched fs adj rows tot = Inr r"
  shows "pres_annual_breakdown r = rows" and "pres_category_totals r = tot"
    and "pres_depreciation_schedule r = sched"
    and "ps_out_of_pocket_total (pres_summary r)
          = pt_maintenance tot + pt_insurance tot + pt_fuel_energy tot + pt_financing tot"
    and "ps_total_ownership_cost (pres_summary r) = ps_out_of_pocket_total (pres_summary r)"
    and "pres_display_total_cost r = ps_out_of_pocket_total (pres_summary r)"
    and "ps_total_tco_with_depreciation (pres_summary r)
          = pt_depreciation tot + pt_maintenance tot + pt_insurance tot + pt_fuel_energy tot
            + pt_financing tot"
    and "ps_total_depreciation (pres_summary r) = pt_depreciation tot"
    and "n \<noteq> 0"
    and "get_default (in_gross_income inp) 60000 \<noteq> 0"
  using assms
  by (auto simp: purchase_final_def calculate_affordability_def Let_def
      split: if_splits sum.splits)

lemma row_loop:
  assumes run: "for_range body 1 n ([], z) = Inr (rows, tot)"
    and body: "\<And>y rs t. body y (rs, t)
        = (case row y of Inl e \<Rightarrow> Inl e | Inr r \<Rightarrow> Inr (rs @ [r], add t r))"
  shows "length rows = nat n" and "\<forall>k<length rows. row (int k + 1) = Inr (rows ! k)"
    and "tot = foldl add z rows"
proof -
  define I where "I = (\<lambda>(y::int) (st :: 'a list \<times> 'b).
      length (fst st) = nat (y - 1)
      \<and> (\<forall>k<length (fst st). row (int k + 1) = Inr (fst st ! k))
      \<and> snd st = foldl add z (fst st))"
  have I0: "I 1 ([], z)" by (simp add: I_def)
  have step: "I (y + 1) v" if y1: "1 \<le> y" and Iy: "I y u" and b: "body y u = Inr v" for y u v
  proof -
    obtain rs t where u: "u = (rs, t)" by (cases u)
    from b u body [of y rs t] obtain r where r: "row y = Inr r" and v: "v = (rs @ [r], add t r)"
      by (cases "row y") auto
    have len: "length rs = nat (y - 1)" using Iy u by (simp add: I_def)
    have "row (int k + 1) = Inr ((rs @ [r]) ! k)" if "k < length (rs @ [r])" for k
    proof (cases "k < length rs")
      case True
      then show ?thesis using Iy u by (simp add: I_def nth_append)
    next
      case False
      with that have "k = length rs" by simp
      then show ?thesis using len y1 r by (simp add: nth_append)
    qed
    then show ?thesis using Iy u v len y1 by (simp add: I_def nat_add_distrib)
  qed
  have "I (max 1 (n + 1)) (rows, tot)"
    using for_range_invariant [OF run, of I] I0 step by blast
  then show "length rows = nat n" and "\<forall>k<length rows. row (int k + 1) = Inr (rows ! k)"
    and "tot = foldl add z rows"
    by (auto simp: I_def max_def)
qed

lemma new_schedule_returns:
  "\<exists>s. calculate_depreciation_schedule iv mk md my am years = Inr s"
proof (cases "0 \<le> years")
  case True
  then show ?thesis
    using depreciation_loop_telescopes [of 1 years "[]" iv "classify_vehicle_segment mk md"
        "apply_model_specific_adjustments mk md (get_or depreciation_brand_multipliers mk 1.0)"
        "calculate_mileage_impact (of_int am)"]
    by (auto simp: calculate_depreciation_schedule_def value_after_def)
next
  case False
  then have "depreciation_loop iv (classify_vehicle_segment mk md)
        (apply_model_specific_adjustments mk md (get_or depreciation_brand_multipliers mk 1.0))
        (calculate_mileage_impact (of_int am)) years 1 [] = Inr []"
    by (subst depreciation_loop.simps) simp
  then show ?thesis by (simp add: calculate_depreciation_schedule_def)
qed

text \<open>
  The depreciation schedule of a purchase: a \<open>KeyError\<close> for a new vehicle without
  \<open>annual_mileage\<close>, a schedule otherwise.
\<close>

lemma purchase_schedule_returns:
  "(\<exists>sched. purchase_depreciation_schedule cy inp pp cm n = Inr sched)
   \<or> (in_annual_mileage inp = None
       \<and> purchase_depreciation_schedule cy inp pp cm n = Inl KeyError)"
proof (cases "is_used_vehicle cy (in_year inp) cm")
  case True
  then show ?thesis
    using used_schedule_returns [of cy inp pp n]
    by (auto simp: purchase_depreciation_schedule_def)
next
  case False
  show ?thesis
  proof (cases "in_annual_mileage inp")
    case None
    with False show ?thesis
      by (simp add: purchase_depreciation_schedule_def required_def)
  next
    case (Some am)
    with False show ?thesis
      using new_schedule_returns [of pp "in_make inp" "in_model inp" "in_year inp" am n]
      by (simp add: purchase_depreciation_schedule_def required_def)
  qed
qed

text \<open>
  The purchase calculation passes \<open>vehicle_make\<close>, \<open>driving_style\<close> and \<open>vehicle_model\<close>
  to \<open>get_maintenance_schedule\<close>, which does not declare them: every purchase
  calculation raises, \<open>KeyError\<close> when the input has no \<open>annual_mileage\<close> and
  \<open>TypeError\<close> at the call otherwise.
\<close>

lemma purchase_tco_raises:
  "calculate_purchase_tco E cy inp vc rm
    = Inl (if in_annual_mileage inp = None then KeyError else TypeError)"
  using purchase_schedule_returns [of cy inp
      "get_default (in_price inp) (get_default (in_trim_msrp inp) 25000)"
      "get_default (in_current_mileage inp) 0" "get_default (in_analysis_years inp) 5"]
  by (auto simp: calculate_purchase_tco_def call_get_maintenance_schedule_def required_def
      Let_def split: option.splits)

lemma lease_year_insurance:
  assumes "lease_year_row E cy inp vc rm mp limit sched y = Inr row"
  shows "\<exists>msrp. in_trim_msrp inp = Some msrp
    \<and> lease_insurance E inp rm limit msrp = Inr (lr_insurance row)"
  using assms
  by (auto simp: lease_year_row_def Let_def required_def split: sum.splits option.splits)

lemma lease_final_Inr:
  assumes "lease_final inp vc n limit dp sched rows tot = Inr l"
  shows "lres_annual_breakdown l = rows" and "lres_category_totals l = tot"
    and "lres_maintenance_schedule l = sched" and "n \<noteq> 0"
    and "in_gross_income inp \<noteq> Some 0"
  using assms
  by (auto simp: lease_final_def calculate_affordability_def required_def Let_def
      split: if_splits sum.splits)

lemma lease_tco_Inr:
  assumes "calculate_lease_tco E cy inp vc rm = Inr l"
  obtains n mp limit base rows tot where
    "in_analysis_years inp = Some n"
    "in_lease_monthly_payment inp = Some mp"
    "in_lease_mileage_limit inp = Some limit"
    "call_get_maintenance_schedule limit n (get_default (in_current_mileage inp) 0) None
      = Inr base"
    "for_range
        (lease_year_body E cy inp vc rm mp limit
           (adjust_lease_maintenance_schedule base (in_make inp) rm))
        1 n
        ([], \<lparr> lt_lease_payments = 0, lt_maintenance = 0, lt_insurance = 0,
               lt_fuel_energy = 0, lt_fees_penalties = 0 \<rparr>)
      = Inr (rows, tot)"
    "lease_final inp vc n limit (get_default (in_down_payment inp) 0)
        (adjust_lease_maintenance_schedule base (in_make inp) rm) rows tot = Inr l"
  using assms
  unfolding calculate_lease_tco_def Let_def required_def
  by (auto split: sum.splits prod.splits option.splits)


text \<open>With a gross income of 0 neither calculation returns a result.\<close>

lemma zero_income_never_returns:
  assumes "in_gross_income inp = Some 0"
  shows "isl (calculate_total_cost_of_ownership E cy inp)"
proof (rule ccontr)
  assume "\<not> isl (calculate_total_cost_of_ownership E cy inp)"
  then obtain res where res: "calculate_total_cost_of_ownership E cy inp = Inr res"
    by (cases "calculate_total_cost_of_ownership E cy inp") simp_all
  let ?vc = "get_vehicle_characteristics E (in_make inp) (in_model inp) (in_year inp)"
  let ?rm = "get_regional_cost_multiplier (get_default (in_zip_code inp) [])
      (get_default (in_state inp) [])"
  show False
  proof (cases res)
    case (Purchase_result r)
    with res have "calculate_purchase_tco E cy inp ?vc ?rm = Inr r"
      by (auto simp: calculate_total_cost_of_ownership_def Let_def split: if_splits sum.splits)
    then show False by (simp add: purchase_tco_raises)
  next
    case (Lease_result l)
    with res have a: "calculate_lease_tco E cy inp ?vc ?rm = Inr l"
      by (auto simp: calculate_total_cost_of_ownership_def Let_def split: if_splits sum.splits)
    obtain n mp limit base rows tot where
      "in_analysis_years inp = Some n"
      "in_lease_monthly_payment inp = Some mp"
      "in_lease_mileage_limit inp = Some limit"
      "call_get_maintenance_schedule limit n (get_default (in_current_mileage inp) 0) None
        = Inr base"
      "for_range
          (lease_year_body E cy inp ?vc ?rm mp limit
             (adjust_lease_maintenance_schedule base (in_make inp) ?rm))
          1 n
          ([], \<lparr> lt_lease_payments = 0, lt_maintenance = 0, lt_insurance = 0,
                 lt_fuel_energy = 0, lt_fees_penalties = 0 \<rparr>)
        = Inr (rows, tot)"
      and fin: "lease_final inp ?vc n limit (get_default (in_down_payment inp) 0)
          (adjust_lease_maintenance_schedule base (in_make inp) ?rm) rows tot = Inr l"
      by (rule lease_tco_Inr [OF a])
    from lease_final_Inr(5) [OF fin] assms show False by simp
  qed
qed

subsection \<open>The sample runs return\<close>

lemma sample_lease_runs:
  "\<not> isl (calculate_lease_tco sample_engines 2025 sample_lease
      (get_vehicle_characteristics sample_engines ''Toyota'' ''Camry'' 2025) 1.1)"
  by code_simp

lemma long_lease_rows:
  "(case calculate_total_cost_of_ownership sample_engines 2025 long_lease of
      Inr (Lease_result l) \<Rightarrow> length (lres_annual_breakdown l) = 16
    | _ \<Rightarrow> False)"
  by code_simp

lemma negative_lease_rows:
  "(case calculate_total_cost_of_ownership sample_engines 2025 negative_lease of
      Inr (Lease_result l) \<Rightarrow> lres_annual_breakdown l = []
    | _ \<Rightarrow> False)"
  by code_simp

lemma lease_years_2025:
  "(case calculate_total_cost_of_ownership sample_engines 2025 sample_lease of
      Inr (Lease_result l) \<Rightarrow>
        map lr_ownership_year (lres_annual_breakdown l) = [2025, 2026, 2027]
    | _ \<Rightarrow> False)"
  by code_simp

lemma lease_years_2026:
  "(case calculate_total_cost_of_ownership sample_engines 2026 sample_lease of
      Inr (Lease_result l) \<Rightarrow>
        map lr_ownership_year (lres_annual_breakdown l) = [2026, 2027, 2028]
    | _ \<Rightarrow> False)"
  by code_simp


subsection \<open>The clock in the lease calculation\<close>

lemma for_range_sim:
  assumes "R s1 s2"
    and "\<And>y u1 u2. R u1 u2 \<Longrightarrow> rel_sum (=) R (b1 y u1) (b2 y u2)"
  shows "rel_sum (=) R (for_range b1 year stop s1) (for_range b2 year stop s2)"
  using assms
proof (induction b1 year stop s1 arbitrary: s2 rule: for_range.induct)
  case (1 b1 year stop s1)
  show ?case
  proof (cases "year > stop")
    case True
    then show ?thesis using "1.prems"(1) by (simp add: for_range_done)
  next
    case False
    note rel = "1.prems"(2) [OF "1.prems"(1), of year]
    show ?thesis
    proof (cases "b1 year s1")
      case (Inl e)
      with rel have "b2 year s2 = Inl e" by (cases "b2 year s2") auto
      with Inl False show ?thesis by (simp add: for_range_error)
    next
      case (Inr t1)
      with rel obtain t2 where t2: "b2 year s2 = Inr t2" and R: "R t1 t2"
        by (cases "b2 year s2") auto
      have "rel_sum (=) R (for_range b1 (year + 1) stop t1) (for_range b2 (year + 1) stop t2)"
        using "1.IH" [OF False Inr R] "1.prems"(2) by blast
      with False Inr t2 show ?thesis by (simp add: for_range_step)
    qed
  qed
qed

lemma lease_year_row_clock:
  "map_sum id row_without_clock (lease_year_row E cy1 inp vc rm mp limit sched y)
    = map_sum id row_without_clock (lease_year_row E cy2 inp vc rm mp limit sched y)"
  by (simp add: lease_year_row_def Let_def row_without_clock_def split: sum.splits)

lemma add_to_lease_totals_clock:
  "row_without_clock a = row_without_clock b \<Longrightarrow>
    add_to_lease_totals t a = add_to_lease_totals t b"
proof -
  assume h: "row_without_clock a = row_without_clock b"
  have "lr_lease_payment (row_without_clock a) = lr_lease_payment (row_without_clock b)"
    "lr_maintenance (row_without_clock a) = lr_maintenance (row_without_clock b)"
    "lr_insurance (row_without_clock a) = lr_insurance (row_without_clock b)"
    "lr_fuel_energy (row_without_clock a) = lr_fuel_energy (row_without_clock b)"
    "lr_fees_penalties (row_without_clock a) = lr_fees_penalties (row_without_clock b)"
    using h by simp_all
  then show ?thesis by (simp add: add_to_lease_totals_def row_without_clock_def)
qed

lemma lease_year_body_clock:
  assumes "same_without_clock u1 u2"
  shows "rel_sum (=) same_without_clock
      (lease_year_body E cy1 inp vc rm mp limit sched y u1)
      (lease_year_body E cy2 inp vc rm mp limit sched y u2)"
proof -
  obtain rs1 t1 rs2 t2 where u: "u1 = (rs1, t1)" "u2 = (rs2, t2)"
    by (cases u1, cases u2) auto
  have t: "t1 = t2" and rs: "map row_without_clock rs1 = map row_without_clock rs2"
    using assms u by (simp_all add: same_without_clock_def)
  note c = lease_year_row_clock [of E cy1 inp vc rm mp limit sched y cy2]
  show ?thesis
  proof (cases "lease_year_row E cy1 inp vc rm mp limit sched y")
    case (Inl e)
    with c have "lease_year_row E cy2 inp vc rm mp limit sched y = Inl e"
      by (cases "lease_year_row E cy2 inp vc rm mp limit sched y") auto
    with Inl u show ?thesis by (simp add: lease_year_body_def)
  next
    case (Inr a)
    with c obtain b where b: "lease_year_row E cy2 inp vc rm mp limit sched y = Inr b"
      and ab: "row_without_clock a = row_without_clock b"
      by (cases "lease_year_row E cy2 inp vc rm mp limit sched y") auto
    show ?thesis
      using Inr b u t rs ab add_to_lease_totals_clock [OF ab, of t2]
      by (simp add: lease_year_body_def same_without_clock_def)
  qed
qed

lemma lease_final_clock:
  assumes "map row_without_clock rows1 = map row_without_clock rows2"
  shows "map_sum id lease_without_clock (lease_final inp vc n limit dp sched rows1 tot)
    = map_sum id lease_without_clock (lease_final inp vc n limit dp sched rows2 tot)"
  using assms
  by (simp add: lease_final_def Let_def lease_without_clock_def split: sum.splits)

lemma lease_tco_clock:
  "map_sum id lease_without_clock (calculate_lease_tco E cy1 inp vc rm)
    = map_sum id lease_without_clock (calculate_lease_tco E cy2 inp vc rm)"
proof (cases "in_analysis_years inp")
  case None
  then show ?thesis by (simp add: calculate_lease_tco_def required_def)
next
  case n: (Some n)
  show ?thesis
  proof (cases "in_lease_monthly_payment inp")
    case None
    with n show ?thesis by (simp add: calculate_lease_tco_def required_def)
  next
    case mp: (Some mp)
    show ?thesis
    proof (cases "in_lease_mileage_limit inp")
      case None
      with n mp show ?thesis by (simp add: calculate_lease_tco_def required_def)
    next
      case limit: (Some limit)
      show ?thesis
      proof (cases "call_get_maintenance_schedule limit n
          (get_default (in_current_mileage inp) 0) None")
        case (Inl e)
        with n mp limit show ?thesis
          by (simp add: calculate_lease_tco_def required_def Let_def)
      next
        case (Inr base)
        let ?adj = "adjust_lease_maintenance_schedule base (in_make inp) rm"
        let ?z = "\<lparr> lt_lease_payments = 0, lt_maintenance = 0, lt_insurance = 0,
               lt_fuel_energy = 0, lt_fees_penalties = 0 \<rparr>"
        let ?run = "\<lambda>cy. for_range (lease_year_body E cy inp vc rm mp limit ?adj) 1 n ([], ?z)"
        have unf: "calculate_lease_tco E cy inp vc rm
            = (case ?run cy of
                 Inl e \<Rightarrow> Inl e
               | Inr (rows, tot) \<Rightarrow>
                   lease_final inp vc n limit (get_default (in_down_payment inp) 0) ?adj
                     rows tot)" for cy
          using n mp limit Inr by (simp add: calculate_lease_tco_def required_def Let_def)
        have sim: "rel_sum (=) same_without_clock (?run cy1) (?run cy2)"
          by (rule for_range_sim) (simp_all add: same_without_clock_def lease_year_body_clock)
        show ?thesis
        proof (cases "?run cy1")
          case (Inl e)
          with sim have "?run cy2 = Inl e" by (cases "?run cy2") auto
          with Inl show ?thesis by (simp add: unf)
        next
          case r1: (Inr s1)
          with sim obtain s2 where r2: "?run cy2 = Inr s2" and s: "same_without_clock s1 s2"
            by (cases "?run cy2") auto
          obtain rows1 tot1 rows2 tot2 where p: "s1 = (rows1, tot1)" "s2 = (rows2, tot2)"
            by (cases s1, cases s2) auto
          from s p have "tot1 = tot2" "map row_without_clock rows1 = map row_without_clock rows2"
            by (simp_all add: same_without_clock_def)
          then show ?thesis
            using r1 r2 p lease_final_clock [of rows1 rows2 inp vc n limit
                "get_default (in_down_payment inp) 0" ?adj tot2]
            by (simp add: unf)
        qed
      qed
    qed
  qed
qed


text \<open>The two fields of a lease row that are computed from the clock year.\<close>

lemma lease_year_row_years:
  assumes "lease_year_row E cy inp vc rm mp limit sched y = Inr row"
  shows "lr_ownership_year row = cy + y - 1"
    and "lr_vehicle_age row = cy + y - 1 - in_year inp"
  using assms
  by (auto simp: lease_year_row_def Let_def split: sum.splits)

lemma lease_row_years:
  assumes a: "calculate_lease_tco E cy inp vc rm = Inr l"
  shows "map lr_ownership_year (lres_annual_breakdown l)
      = map (\<lambda>k. cy + int k) [0 ..< length (lres_annual_breakdown l)]"
    and "map lr_vehicle_age (lres_annual_breakdown l)
      = map (\<lambda>k. cy + int k - in_year inp) [0 ..< length (lres_annual_breakdown l)]"
proof -
  obtain n mp limit base rows tot where
    "in_analysis_years inp = Some n"
    "in_lease_monthly_payment inp = Some mp"
    "in_lease_mileage_limit inp = Some limit"
    "call_get_maintenance_schedule limit n (get_default (in_current_mileage inp) 0) None
      = Inr base"
    and run: "for_range
        (lease_year_body E cy inp vc rm mp limit
           (adjust_lease_maintenance_schedule base (in_make inp) rm))
        1 n
        ([], \<lparr> lt_lease_payments = 0, lt_maintenance = 0, lt_insurance = 0,
               lt_fuel_energy = 0, lt_fees_penalties = 0 \<rparr>)
      = Inr (rows, tot)"
    and fin: "lease_final inp vc n limit (get_default (in_down_payment inp) 0)
        (adjust_lease_maintenance_schedule base (in_make inp) rm) rows tot = Inr l"
    by (rule lease_tco_Inr [OF a])
  let ?adj = "adjust_lease_maintenance_schedule base (in_make inp) rm"
  have body: "lease_year_body E cy inp vc rm mp limit ?adj y (rs, t)
      = (case lease_year_row E cy inp vc rm mp limit ?adj y of
           Inl e \<Rightarrow> Inl e
         | Inr row \<Rightarrow> Inr (rs @ [row], add_to_lease_totals t row))" for y rs t
    by (simp add: lease_year_body_def)
  note loop = row_loop [where row = "lease_year_row E cy inp vc rm mp limit ?adj"
      and add = add_to_lease_totals, OF run body]
  have rows: "lres_annual_breakdown l = rows" by (rule lease_final_Inr(1) [OF fin])
  have k: "lr_ownership_year (rows ! k) = cy + int k
      \<and> lr_vehicle_age (rows ! k) = cy + int k - in_year inp" if "k < length rows" for k
  proof -
    from that loop(2) have
      "lease_year_row E cy inp vc rm mp limit ?adj (int k + 1) = Inr (rows ! k)"
      by blast
    from lease_year_row_years [OF this] show ?thesis by simp
  qed
  show "map lr_ownership_year (lres_annual_breakdown l)
      = map (\<lambda>k. cy + int k) [0 ..< length (lres_annual_breakdown l)]"
    unfolding rows by (rule nth_equalityI) (simp_all add: k)
  show "map lr_vehicle_age (lres_annual_breakdown l)
      = map (\<lambda>k. cy + int k - in_year inp) [0 ..< length (lres_annual_breakdown l)]"
    unfolding rows by (rule nth_equalityI) (simp_all add: k)
qed
section \<open>Properties\<close>

subsection \<open>The mileage multiplier at its breakpoints\<close>

text \<open>
  C2. The multiplier is claimed to be continuous at the breakpoints 100, 1000, 5000,
  12000 and 20000. At 5000 it is not: the branch for 5000 to 12000 miles computes
  \<open>0.85 + (annual_mileage / 12000) * 0.15\<close>, which at the breakpoint is 0.9125
  and not the 0.85 that the branch below reaches there (and that the comment of the
  branch, \<open>Range: 0.85 to 1.0\<close>, gives as its start). One more mile after 5000 raises
  the multiplier by more than 0.0625, five thousand times the slope of the piece. At
  the other four breakpoints one more mile raises the multiplier by one step of the
  slope of the next piece.
\<close>

theorem mileage_impact_jump_at_5000:
  "calculate_mileage_impact 5000 = 85 / 100
   \<and> calculate_mileage_impact 5001 = 85 / 100 + 5001 / 12000 * (15 / 100)
   \<and> calculate_mileage_impact 5001 - calculate_mileage_impact 5000 > 625 / 10000
   \<and> calculate_mileage_impact 5002 - calculate_mileage_impact 5001 = 1 / 12000 * (15 / 100)
   \<and> calculate_mileage_impact 101 - calculate_mileage_impact 100 = 1 / 900 * (15 / 100)
   \<and> calculate_mileage_impact 1001 - calculate_mileage_impact 1000 = 1 / 4000 * (10 / 100)
   \<and> calculate_mileage_impact 12001 - calculate_mileage_impact 12000 = 1 / 8000 * (25 / 100)
   \<and> calculate_mileage_impact 20001 - calculate_mileage_impact 20000
        = 1 / 20000 * (25 / 100)"
  by (simp add: calculate_mileage_impact_def Let_def)

subsection \<open>Segment classification\<close>

text \<open>
  C8. For every pair of make and model strings the classification returns one of the
  eight segments (the function is total: it has no failing branch), and the first
  matching rule wins in the order electric, luxury brand, sports keyword, truck
  keyword, suv keyword, compact keyword, economy keyword, default sedan.
\<close>

theorem classify_total_and_priority:
  fixes make model :: string
  defines "ml \<equiv> lower model" and "mk \<equiv> lower make"
  defines "r_electric \<equiv> any_term_in ev_terms ml \<or> mk \<in> set ev_makes"
      and "r_luxury \<equiv> mk \<in> set luxury_brands"
      and "r_sports \<equiv> any_term_in sports_terms ml"
      and "r_truck \<equiv> any_term_in truck_terms ml \<or> py_in ''truck'' ml"
      and "r_suv \<equiv> any_term_in suv_terms ml \<or> py_in ''suv'' ml"
      and "r_compact \<equiv> any_term_in compact_terms ml"
      and "r_economy \<equiv> any_term_in economy_terms ml"
  shows "classify_vehicle_segment make model \<in> set segments
    \<and> (r_electric \<longrightarrow> classify_vehicle_segment make model = ''electric'')
    \<and> (\<not> r_electric \<and> r_luxury \<longrightarrow> classify_vehicle_segment make model = ''luxury'')
    \<and> (\<not> r_electric \<and> \<not> r_luxury \<and> r_sports
         \<longrightarrow> classify_vehicle_segment make model = ''sports'')
    \<and> (\<not> r_electric \<and> \<not> r_luxury \<and> \<not> r_sports \<and> r_truck
         \<longrightarrow> classify_vehicle_segment make model = ''truck'')
    \<and> (\<not> r_electric \<and> \<not> r_luxury \<and> \<not> r_sports \<and> \<not> r_truck \<and> r_suv
         \<longrightarrow> classify_vehicle_segment make model = ''suv'')
    \<and> (\<not> r_electric \<and> \<not> r_luxury \<and> \<not> r_sports \<and> \<not> r_truck \<and> \<not> r_suv \<and> r_compact
         \<longrightarrow> classify_vehicle_segment make model = ''compact'')
    \<and> (\<not> r_electric \<and> \<not> r_luxury \<and> \<not> r_sports \<and> \<not> r_truck \<and> \<not> r_suv
         \<and> \<not> r_compact \<and> r_economy
         \<longrightarrow> classify_vehicle_segment make model = ''economy'')
    \<and> (\<not> r_electric \<and> \<not> r_luxury \<and> \<not> r_sports \<and> \<not> r_truck \<and> \<not> r_suv
         \<and> \<not> r_compact \<and> \<not> r_economy
         \<longrightarrow> classify_vehicle_segment make model = ''sedan'')"
  unfolding assms
  by (simp add: classify_vehicle_segment_def segments_def Let_def)

theorem classify_total_and_priority_witness:
  "classify_vehicle_segment ''BMW'' ''i4'' = ''electric''
   \<and> classify_vehicle_segment ''BMW'' ''X5'' = ''luxury''
   \<and> classify_vehicle_segment ''Ford'' ''Mustang'' = ''sports''
   \<and> classify_vehicle_segment ''Honda'' ''Ridgeline'' = ''truck''
   \<and> classify_vehicle_segment ''Toyota'' ''RAV4'' = ''suv''
   \<and> classify_vehicle_segment ''Honda'' ''Civic'' = ''compact''
   \<and> classify_vehicle_segment ''Kia'' ''Rio'' = ''economy''
   \<and> classify_vehicle_segment ''Toyota'' ''Camry'' = ''sedan''"
proof -
  have e: "any_term_in ev_terms (lower ''i4'') \<or> lower ''BMW'' \<in> set ev_makes" by code_simp
  have l: "\<not> (any_term_in ev_terms (lower ''X5'') \<or> lower ''BMW'' \<in> set ev_makes)
      \<and> lower ''BMW'' \<in> set luxury_brands" by code_simp
  have s: "\<not> (any_term_in ev_terms (lower ''Mustang'') \<or> lower ''Ford'' \<in> set ev_makes)
      \<and> lower ''Ford'' \<notin> set luxury_brands \<and> any_term_in sports_terms (lower ''Mustang'')"
    by code_simp
  have t: "\<not> (any_term_in ev_terms (lower ''Ridgeline'') \<or> lower ''Honda'' \<in> set ev_makes)
      \<and> lower ''Honda'' \<notin> set luxury_brands \<and> \<not> any_term_in sports_terms (lower ''Ridgeline'')
      \<and> (any_term_in truck_terms (lower ''Ridgeline'') \<or> py_in ''truck'' (lower ''Ridgeline''))"
    by code_simp
  have u: "\<not> (any_term_in ev_terms (lower ''RAV4'') \<or> lower ''Toyota'' \<in> set ev_makes)
      \<and> lower ''Toyota'' \<notin> set luxury_brands \<and> \<not> any_term_in sports_terms (lower ''RAV4'')
      \<and> \<not> (any_term_in truck_terms (lower ''RAV4'') \<or> py_in ''truck'' (lower ''RAV4''))
      \<and> (any_term_in suv_terms (lower ''RAV4'') \<or> py_in ''suv'' (lower ''RAV4''))"
    by code_simp
  have c: "\<not> (any_term_in ev_terms (lower ''Civic'') \<or> lower ''Honda'' \<in> set ev_makes)
      \<and> lower ''Honda'' \<notin> set luxury_brands \<and> \<not> any_term_in sports_terms (lower ''Civic'')
      \<and> \<not> (any_term_in truck_terms (lower ''Civic'') \<or> py_in ''truck'' (lower ''Civic''))
      \<and> \<not> (any_term_in suv_terms (lower ''Civic'') \<or> py_in ''suv'' (lower ''Civic''))
      \<and> any_term_in compact_terms (lower ''Civic'')"
    by code_simp
  have y: "\<not> (any_term_in ev_terms (lower ''Rio'') \<or> lower ''Kia'' \<in> set ev_makes)
      \<and> lower ''Kia'' \<notin> set luxury_brands \<and> \<not> any_term_in sports_terms (lower ''Rio'')
      \<and> \<not> (any_term_in truck_terms (lower ''Rio'') \<or> py_in ''truck'' (lower ''Rio''))
      \<and> \<not> (any_term_in suv_terms (lower ''Rio'') \<or> py_in ''suv'' (lower ''Rio''))
      \<and> \<not> any_term_in compact_terms (lower ''Rio'')
      \<and> any_term_in economy_terms (lower ''Rio'')"
    by code_simp
  have d: "\<not> (any_term_in ev_terms (lower ''Camry'') \<or> lower ''Toyota'' \<in> set ev_makes)
      \<and> lower ''Toyota'' \<notin> set luxury_brands \<and> \<not> any_term_in sports_terms (lower ''Camry'')
      \<and> \<not> (any_term_in truck_terms (lower ''Camry'') \<or> py_in ''truck'' (lower ''Camry''))
      \<and> \<not> (any_term_in suv_terms (lower ''Camry'') \<or> py_in ''suv'' (lower ''Camry''))
      \<and> \<not> any_term_in compact_terms (lower ''Camry'')
      \<and> \<not> any_term_in economy_terms (lower ''Camry'')"
    by code_simp
  note T = classify_total_and_priority
  have 1: "classify_vehicle_segment ''BMW'' ''i4'' = ''electric''"
    by (rule T [of "''BMW''" "''i4''", THEN conjunct2, THEN conjunct1, THEN mp]) (rule e)
  have 2: "classify_vehicle_segment ''BMW'' ''X5'' = ''luxury''"
    by (rule T [of "''BMW''" "''X5''", THEN conjunct2, THEN conjunct2, THEN conjunct1, THEN mp]) (rule l)
  have 3: "classify_vehicle_segment ''Ford'' ''Mustang'' = ''sports''"
    by (rule T [of "''Ford''" "''Mustang''", THEN conjunct2, THEN conjunct2, THEN conjunct2, THEN conjunct1, THEN mp]) (rule s)
  have 4: "classify_vehicle_segment ''Honda'' ''Ridgeline'' = ''truck''"
    by (rule T [of "''Honda''" "''Ridgeline''", THEN conjunct2, THEN conjunct2, THEN conjunct2, THEN conjunct2, THEN conjunct1, THEN mp]) (rule t)
  have 5: "classify_vehicle_segment ''Toyota'' ''RAV4'' = ''suv''"
    by (rule T [of "''Toyota''" "''RAV4''", THEN conjunct2, THEN conjunct2, THEN conjunct2, THEN conjunct2, THEN conjunct2, THEN conjunct1, THEN mp]) (rule u)
  have 6: "classify_vehicle_segment ''Honda'' ''Civic'' = ''compact''"
    by (rule T [of "''Honda''" "''Civic''", THEN conjunct2, THEN conjunct2, THEN conjunct2, THEN conjunct2, THEN conjunct2, THEN conjunct2, THEN conjunct1, THEN mp]) (rule c)
  have 7: "classify_vehicle_segment ''Kia'' ''Rio'' = ''economy''"
    by (rule T [of "''Kia''" "''Rio''", THEN conjunct2, THEN conjunct2, THEN conjunct2, THEN conjunct2, THEN conjunct2, THEN conjunct2, THEN conjunct2, THEN conjunct1, THEN mp]) (rule y)
  have 8: "classify_vehicle_segment ''Toyota'' ''Camry'' = ''sedan''"
    by (rule T [of "''Toyota''" "''Camry''", THEN conjunct2, THEN conjunct2, THEN conjunct2, THEN conjunct2, THEN conjunct2, THEN conjunct2, THEN conjunct2, THEN conjunct2, THEN mp]) (rule d)
  from 1 2 3 4 5 6 7 8 show ?thesis by (intro conjI)
qed

subsection \<open>The annual depreciation amounts add up to the value lost\<close>

text \<open>
  C5. For any make and model, any initial value and a horizon of one or more years, the
  depreciation engine returns a schedule with one entry per year, and the annual
  depreciation amounts of the schedule add up to the initial value minus the value of
  the vehicle in the last year. In the exact arithmetic of the model the two are equal,
  so there is no drift at all.
\<close>

theorem depreciation_schedule_sums_to_value_lost:
  assumes "1 \<le> years"
  shows "\<exists>schedule.
      calculate_depreciation_schedule initial_value vehicle_make vehicle_model model_year
        annual_mileage years = Inr schedule
      \<and> length schedule = nat years
      \<and> (\<Sum>e\<leftarrow>schedule. dep_annual_depreciation e)
          = initial_value - dep_vehicle_value (last schedule)"
proof -
  let ?seg = "classify_vehicle_segment vehicle_make vehicle_model"
  let ?abm = "apply_model_specific_adjustments vehicle_make vehicle_model
      (get_or depreciation_brand_multipliers vehicle_make 1.0)"
  let ?mm = "calculate_mileage_impact (of_int annual_mileage)"
  obtain s where s: "depreciation_loop initial_value ?seg ?abm ?mm years 1 [] = Inr s"
      "length s = nat years"
      "(\<Sum>e\<leftarrow>s. dep_annual_depreciation e) = initial_value - value_after initial_value s"
    using depreciation_loop_telescopes [of 1 years "[]" initial_value ?seg ?abm ?mm] assms
    by (auto simp: value_after_def)
  from s(2) assms have "s \<noteq> []" by auto
  with s show ?thesis
    by (simp add: calculate_depreciation_schedule_def value_after_def)
qed

theorem depreciation_schedule_sums_to_value_lost_witness:
  "(case calculate_depreciation_schedule 28000 ''Toyota'' ''Camry'' 2024 12000 5 of
      Inl e \<Rightarrow> False
    | Inr schedule \<Rightarrow>
        length schedule = 5
        \<and> (\<Sum>e\<leftarrow>schedule. dep_annual_depreciation e)
            = 28000 - dep_vehicle_value (last schedule))"
  using depreciation_schedule_sums_to_value_lost [of 5 28000 "''Toyota''" "''Camry''" 2024 12000]
  by auto

subsection \<open>The residual floor of the used-vehicle model\<close>

text \<open>
  C7. The linear-decay model of a used vehicle returns one entry per year of the
  horizon, and the vehicle value of every entry is at least 15% of the purchase price;
  in particular the value after the last year is (for a horizon of five years, the value
  after 5 years).
\<close>

theorem used_vehicle_value_floor:
  "\<exists>schedule.
     calculate_realistic_used_vehicle_depreciation current_year input_data initial_value
       analysis_years = Inr schedule
     \<and> length schedule = nat analysis_years
     \<and> (\<forall>e \<in> set schedule. initial_value * 0.15 \<le> dep_vehicle_value e)
     \<and> (1 \<le> analysis_years \<longrightarrow> initial_value * 0.15 \<le> dep_vehicle_value (last schedule))"
  by (rule used_schedule_returns)

theorem used_vehicle_value_floor_witness:
  "(case calculate_realistic_used_vehicle_depreciation 2025 used_bmw_2018 18000 5 of
      Inl e \<Rightarrow> False
    | Inr schedule \<Rightarrow>
        length schedule = 5
        \<and> list_all (\<lambda>e. 2700 \<le> dep_vehicle_value e) schedule
        \<and> 2700 \<le> dep_vehicle_value (last schedule))"
  using used_vehicle_value_floor [of 2025 used_bmw_2018 18000 5]
  by (auto simp: list_all_iff)
subsection \<open>Yearly maintenance occurrences add up to the lifetime count\<close>

text \<open>
  C4. For every service of the interval table, every starting mileage and annual mileage
  (odometer readings, so not negative) and every number of years, the maintenance
  schedule is returned with one entry per year, and the occurrences it bills for the
  service over the years add up to
  \<open>floor(final_mileage / interval) - floor(starting_mileage / interval)\<close>, where the
  final mileage is the starting mileage plus the annual mileage for each year. So a
  service already due before the starting mileage is not billed again, and the part of
  an interval left over at the end of a year is carried into the next year.
\<close>

theorem maintenance_occurrences_sum_to_lifetime_count:
  assumes "0 \<le> starting_mileage" "0 \<le> annual_mileage" "0 \<le> years"
    and "(service_type, interval) \<in> set service_intervals"
  shows "\<exists>schedule.
      get_maintenance_schedule annual_mileage years starting_mileage = Inr schedule
      \<and> length schedule = nat years
      \<and> (\<Sum>y\<leftarrow>schedule. occurrences_this_year (service_name service_type) y)
          = \<lfloor>(of_int (starting_mileage + annual_mileage * years) :: rat) / of_int interval\<rfloor>
            - \<lfloor>(of_int starting_mileage :: rat) / of_int interval\<rfloor>"
proof -
  let ?sm = starting_mileage and ?am = annual_mileage
  let ?occ = "occurrences_this_year (service_name service_type)"
  define body where "body = maintenance_year_body ?am ?sm"
  define I where "I = (\<lambda>(y::int) (st :: int \<times> maintenance_year list).
      fst st = ?sm + ?am * (y - 1) \<and> length (snd st) = nat (y - 1)
      \<and> (\<Sum>e\<leftarrow>snd st. ?occ e) = (?sm + ?am * (y - 1)) div interval - ?sm div interval)"
  have I0: "I 1 (?sm, [])" by (simp add: I_def)
  have step: "\<exists>v. body y u = Inr v \<and> I (y + 1) v" if y1: "1 \<le> y" and Iy: "I y u" for y u
  proof -
    obtain tm sch where u: "u = (tm, sch)" by (cases u)
    have tm: "tm = ?sm + ?am * (y - 1)" using Iy u by (simp add: I_def)
    obtain e where e: "body y (tm, sch) = Inr (tm + ?am, sch @ [e])"
      "?occ e = (?sm + ?am * y) div interval - (?sm + ?am * (y - 1)) div interval"
      using maintenance_year_billed [OF assms(1,2) y1 tm assms(4), of sch]
      unfolding body_def by blast
    have "I (y + 1) (tm + ?am, sch @ [e])"
      using y1 Iy u tm e(2) by (simp add: I_def nat_add_distrib algebra_simps)
    with e(1) u show ?thesis by simp
  qed
  obtain t where t: "for_range body 1 years (?sm, []) = Inr t"
    using for_range_returns [of I 1 "(?sm, [])" years body] I0 step by blast
  have "I (max 1 (years + 1)) t"
    using for_range_invariant [OF t, of I] I0 step by force
  with assms(3) have It: "I (years + 1) t" by (simp add: max_def)
  have res: "get_maintenance_schedule ?am years ?sm = Inr (snd t)"
    using t unfolding get_maintenance_schedule_def body_def by (simp split: prod.splits)
  have "(\<Sum>e\<leftarrow>snd t. ?occ e) = (?sm + ?am * years) div interval - ?sm div interval"
    using It by (simp add: I_def)
  also have "\<dots> = \<lfloor>(of_int (?sm + ?am * years) :: rat) / of_int interval\<rfloor>
            - \<lfloor>(of_int ?sm :: rat) / of_int interval\<rfloor>"
    by (simp only: floor_divide_of_int_eq)
  finally show ?thesis using res It by (auto simp: I_def)
qed

theorem maintenance_occurrences_sum_to_lifetime_count_witness:
  "(case get_maintenance_schedule 12000 5 70000 of
      Inl e \<Rightarrow> False
    | Inr schedule \<Rightarrow>
        length schedule = 5
        \<and> (\<Sum>y\<leftarrow>schedule. occurrences_this_year (service_name ''oil_change'') y) = 8)"
proof -
  have m: "(''oil_change'', 7500) \<in> set service_intervals"
    by (simp add: service_intervals_def)
  have f: "\<lfloor>(of_int (70000 + 12000 * 5) :: rat) / of_int 7500\<rfloor>
      - \<lfloor>(of_int 70000 :: rat) / of_int 7500\<rfloor> = 8"
    using floor_divide_of_int_eq [of "70000 + 12000 * 5" 7500, where ?'a = rat]
      floor_divide_of_int_eq [of 70000 7500, where ?'a = rat]
    by simp
  show ?thesis
    using maintenance_occurrences_sum_to_lifetime_count [of 70000 12000 5 "''oil_change''" 7500, OF _ _ _ m] f
    by auto
qed
subsection \<open>The affordability step divides by the gross income\<close>

text \<open>
  C10. The affordability computation divides the annual cost by the gross income with
  no guard for zero: with a gross income of 0 it raises \<open>ZeroDivisionError\<close>, and the
  orchestration returns no result for any input whose gross income is 0. With a gross
  income that is strictly positive the division is defined and the computation returns
  its result, whose percentage of income is the quotient times 100.
\<close>

theorem affordability_division_by_gross_income:
  "calculate_affordability annual_cost 0 transaction_type = Inl ZeroDivisionError
   \<and> (in_gross_income input_data = Some 0 \<longrightarrow>
        isl (calculate_total_cost_of_ownership E current_year input_data))
   \<and> (0 < gross_income \<longrightarrow>
        (\<exists>r. calculate_affordability annual_cost gross_income transaction_type = Inr r
          \<and> af_percentage_of_income r = annual_cost / gross_income * 100
          \<and> af_is_affordable r = (annual_cost / gross_income * 100 \<le> 10)))"
proof (intro conjI impI)
  show "calculate_affordability annual_cost 0 transaction_type = Inl ZeroDivisionError"
    by (simp add: calculate_affordability_def Let_def)
next
  assume "in_gross_income input_data = Some 0"
  then show "isl (calculate_total_cost_of_ownership E current_year input_data)"
    by (rule zero_income_never_returns)
next
  assume "0 < gross_income"
  then show "\<exists>r. calculate_affordability annual_cost gross_income transaction_type = Inr r
      \<and> af_percentage_of_income r = annual_cost / gross_income * 100
      \<and> af_is_affordable r = (annual_cost / gross_income * 100 \<le> 10)"
    by (simp add: calculate_affordability_def Let_def)
qed

theorem affordability_division_by_gross_income_witness:
  "calculate_affordability 6000 0 ''purchase'' = Inl ZeroDivisionError
   \<and> isl (calculate_total_cost_of_ownership sample_engines 2025
            (sample_lease \<lparr> in_gross_income := Some 0 \<rparr>))
   \<and> (case calculate_affordability 6000 60000 ''purchase'' of
        Inl e \<Rightarrow> False
      | Inr r \<Rightarrow> af_percentage_of_income r = 10 \<and> af_is_affordable r)"
proof -
  note T = affordability_division_by_gross_income
    [where annual_cost = 6000 and transaction_type = "''purchase''"
      and input_data = "sample_lease \<lparr> in_gross_income := Some 0 \<rparr>"
      and E = sample_engines and current_year = 2025 and gross_income = 60000]
  have 1: "calculate_affordability 6000 0 ''purchase'' = Inl ZeroDivisionError"
    by (rule T [THEN conjunct1])
  have 2: "isl (calculate_total_cost_of_ownership sample_engines 2025
            (sample_lease \<lparr> in_gross_income := Some 0 \<rparr>))"
    by (rule T [THEN conjunct2, THEN conjunct1, THEN mp]) simp
  have "\<exists>r. calculate_affordability 6000 60000 ''purchase'' = Inr r
      \<and> af_percentage_of_income r = 6000 / 60000 * 100
      \<and> af_is_affordable r = ((6000 :: rat) / 60000 * 100 \<le> 10)"
    by (rule T [THEN conjunct2, THEN conjunct2, THEN mp]) simp
  then have 3: "(case calculate_affordability 6000 60000 ''purchase'' of
        Inl e \<Rightarrow> False
      | Inr r \<Rightarrow> af_percentage_of_income r = 10 \<and> af_is_affordable r)"
    by auto
  from 1 2 3 show ?thesis by (intro conjI)
qed

subsection \<open>Out-of-pocket cost and total cost of ownership of a purchase\<close>

text \<open>
  C1. The claim is about the totals of a purchase calculation: the out-of-pocket total
  is the sum of the four out-of-pocket categories over the years of the horizon, and the
  total cost of ownership exceeds it by the sum of the annual depreciation. No purchase
  calculation reaches these totals. Before the yearly loop the purchase calculation
  calls \<open>get_maintenance_schedule\<close> with the keyword arguments \<open>vehicle_make\<close>,
  \<open>driving_style\<close> and \<open>vehicle_model\<close>, which the method does not declare (the lease
  calculation calls it with the three arguments it declares). For any collaborators,
  clock year and input the purchase calculation therefore raises: \<open>KeyError\<close> when the
  input has no \<open>annual_mileage\<close>, and \<open>TypeError\<close> at this call otherwise.
\<close>

theorem purchase_calculation_raises_before_totals:
  "calculate_purchase_tco E current_year input_data vehicle_characteristics
      regional_multiplier
    = Inl (if in_annual_mileage input_data = None then KeyError else TypeError)"
  by (rule purchase_tco_raises)

text \<open>
  The sample purchase, a new Toyota Camry for 28000 with 12000 miles a year over three
  years, raises \<open>TypeError\<close> at the entry point of the orchestration.
\<close>

theorem purchase_calculation_raises_before_totals_witness:
  "calculate_total_cost_of_ownership sample_engines 2025 sample_purchase = Inl TypeError"
proof -
  let ?vc = "get_vehicle_characteristics sample_engines (in_make sample_purchase)
      (in_model sample_purchase) (in_year sample_purchase)"
  let ?rm = "get_regional_cost_multiplier (get_default (in_zip_code sample_purchase) '''')
      (get_default (in_state sample_purchase) '''')"
  have tt: "lower (get_default (in_transaction_type sample_purchase) ''purchase'')
      \<noteq> ''lease''"
    by code_simp
  have am: "in_annual_mileage sample_purchase = Some 12000"
    by (simp add: sample_purchase_def)
  have "calculate_purchase_tco sample_engines 2025 sample_purchase ?vc ?rm = Inl TypeError"
    using purchase_calculation_raises_before_totals
      [of sample_engines 2025 sample_purchase ?vc ?rm] am
    by simp
  with tt show ?thesis
    by (simp add: calculate_total_cost_of_ownership_def Let_def)
qed
subsection \<open>The vehicle value behind the insurance premium\<close>

text \<open>
  C6. The claim is that in purchase and in lease calculations the premium of each year
  is computed from the depreciated value of the vehicle in that year. The lease
  calculation computes no depreciated value and passes \<open>input_data['trim_msrp']\<close> in
  every year (\<open>Use MSRP for lease insurance\<close>): with a premium of 4% of the value it is
  given, the three years of the sample lease all carry the premium of the MSRP of 28000.
\<close>

theorem lease_insurance_held_at_msrp:
  "(case calculate_total_cost_of_ownership sample_engines 2025 sample_lease of
      Inr (Lease_result l) \<Rightarrow>
        in_trim_msrp sample_lease = Some 28000
        \<and> map lr_insurance (lres_annual_breakdown l)
            = [28000 * 0.04, 28000 * 0.04, 28000 * 0.04]
    | _ \<Rightarrow> False)"
  by code_simp


text \<open>
  C6, as the code has it for a lease. Whenever the lease calculation returns a result,
  for any collaborators, clock year and input, the result has one row for each year of
  the lease term, and the premium of every row is the one the insurance calculator
  gives for the MSRP of the input (\<open>input_data['trim_msrp']\<close>), the same value in every
  year and not a depreciated one.
\<close>

theorem lease_insurance_value_basis:
  assumes a: "calculate_lease_tco E current_year input_data vehicle_characteristics
      regional_multiplier = Inr l"
  shows "\<exists>lease_term annual_mileage_limit.
          in_analysis_years input_data = Some lease_term
          \<and> in_lease_mileage_limit input_data = Some annual_mileage_limit
          \<and> length (lres_annual_breakdown l) = nat lease_term
          \<and> (\<forall>row \<in> set (lres_annual_breakdown l).
                \<exists>msrp. in_trim_msrp input_data = Some msrp
                  \<and> lease_insurance E input_data regional_multiplier annual_mileage_limit msrp
                      = Inr (lr_insurance row))"
proof -
  obtain n mp limit base rows tot where
    n: "in_analysis_years input_data = Some n"
    and mp: "in_lease_monthly_payment input_data = Some mp"
    and limit: "in_lease_mileage_limit input_data = Some limit"
    and base: "call_get_maintenance_schedule limit n
        (get_default (in_current_mileage input_data) 0) None = Inr base"
    and run: "for_range
        (lease_year_body E current_year input_data vehicle_characteristics regional_multiplier
           mp limit (adjust_lease_maintenance_schedule base (in_make input_data)
             regional_multiplier))
        1 n
        ([], \<lparr> lt_lease_payments = 0, lt_maintenance = 0, lt_insurance = 0,
               lt_fuel_energy = 0, lt_fees_penalties = 0 \<rparr>)
      = Inr (rows, tot)"
    and fin: "lease_final input_data vehicle_characteristics n limit
        (get_default (in_down_payment input_data) 0)
        (adjust_lease_maintenance_schedule base (in_make input_data) regional_multiplier)
        rows tot = Inr l"
    by (rule lease_tco_Inr [OF a])
  let ?adj = "adjust_lease_maintenance_schedule base (in_make input_data) regional_multiplier"
  have body: "lease_year_body E current_year input_data vehicle_characteristics
        regional_multiplier mp limit ?adj y (rs, t)
      = (case lease_year_row E current_year input_data vehicle_characteristics
                regional_multiplier mp limit ?adj y of
           Inl e \<Rightarrow> Inl e
         | Inr row \<Rightarrow> Inr (rs @ [row], add_to_lease_totals t row))" for y rs t
    by (simp add: lease_year_body_def)
  note loop = row_loop [where row = "lease_year_row E current_year input_data
        vehicle_characteristics regional_multiplier mp limit ?adj"
        and add = add_to_lease_totals, OF run body]
  note f = lease_final_Inr [OF fin]
  have "\<exists>msrp. in_trim_msrp input_data = Some msrp
          \<and> lease_insurance E input_data regional_multiplier limit msrp
              = Inr (lr_insurance row)"
    if "row \<in> set (lres_annual_breakdown l)" for row
  proof -
    from that f(1) obtain k where k: "k < length rows" "row = rows ! k"
      by (auto simp: in_set_conv_nth)
    then have "lease_year_row E current_year input_data vehicle_characteristics
        regional_multiplier mp limit ?adj (int k + 1) = Inr row"
      using loop(2) by blast
    then show ?thesis by (rule lease_year_insurance)
  qed
  then show ?thesis using n limit loop(1) f(1) by simp
qed

theorem lease_insurance_value_basis_witness:
  "(case calculate_lease_tco sample_engines 2025 sample_lease
          (get_vehicle_characteristics sample_engines ''Toyota'' ''Camry'' 2025) 1.1 of
      Inl e \<Rightarrow> False
    | Inr l \<Rightarrow>
        length (lres_annual_breakdown l) = 3
        \<and> list_all
            (\<lambda>row. lease_insurance sample_engines sample_lease 1.1 12000 28000
                    = Inr (lr_insurance row))
            (lres_annual_breakdown l))"
proof -
  let ?vc = "get_vehicle_characteristics sample_engines ''Toyota'' ''Camry'' 2025"
  obtain l where
    l: "calculate_lease_tco sample_engines 2025 sample_lease ?vc 1.1 = Inr l"
    using sample_lease_runs
    by (cases "calculate_lease_tco sample_engines 2025 sample_lease ?vc 1.1") simp_all
  have k: "in_analysis_years sample_lease = Some 3"
    "in_lease_mileage_limit sample_lease = Some 12000"
    "in_trim_msrp sample_lease = Some 28000"
    by (simp_all add: sample_lease_def)
  have q: "length (lres_annual_breakdown l) = 3
      \<and> list_all
          (\<lambda>row. lease_insurance sample_engines sample_lease 1.1 12000 28000
                  = Inr (lr_insurance row))
          (lres_annual_breakdown l)"
    using lease_insurance_value_basis [OF l] k
    by (auto simp: list_all_iff)
  show ?thesis using q by (simp add: l)
qed
subsection \<open>No validation of the horizon or of the transaction type\<close>

text \<open>
  C3. The claim is that an input with a horizon that is not positive or is greater than
  15, or with a transaction type that is not valid, is rejected before computation with
  a structured validation failure. The orchestration has no validation of the horizon:
  the sample lease with a horizon of 16 years returns a computed result with 16 annual
  rows, and with a horizon of -1 it returns a computed result with no rows.
\<close>

theorem lease_horizon_unvalidated:
  "(case calculate_total_cost_of_ownership sample_engines 2025 long_lease of
      Inr (Lease_result l) \<Rightarrow> length (lres_annual_breakdown l) = 16
    | _ \<Rightarrow> False)
   \<and> (case calculate_total_cost_of_ownership sample_engines 2025 negative_lease of
      Inr (Lease_result l) \<Rightarrow> lres_annual_breakdown l = []
    | _ \<Rightarrow> False)"
  by (intro conjI long_lease_rows negative_lease_rows)

text \<open>
  C3, as the code has it. The orchestration only compares the transaction type, in
  lower case, with \<open>lease\<close>, and passes the horizon on as it was given. Every lease
  result it returns is computed for the horizon of the input, with one annual row for
  each year of it (no row for a negative horizon, and no clamping to 15). An input
  whose transaction type is not \<open>lease\<close>, valid or not, is not rejected for it: the
  orchestration treats it exactly as the same input with the transaction type
  \<open>purchase\<close>.
\<close>

theorem lease_computed_for_given_horizon_other_types_as_purchase:
  "(calculate_total_cost_of_ownership E current_year input_data = Inr (Lease_result l) \<longrightarrow>
      lower (get_default (in_transaction_type input_data) ''purchase'') = ''lease''
      \<and> (\<exists>lease_term. in_analysis_years input_data = Some lease_term
            \<and> length (lres_annual_breakdown l) = nat lease_term))
   \<and> (lower (get_default (in_transaction_type input_data) ''purchase'') \<noteq> ''lease'' \<longrightarrow>
      calculate_total_cost_of_ownership E current_year input_data
        = calculate_total_cost_of_ownership E current_year
            (input_data \<lparr> in_transaction_type := Some ''purchase'' \<rparr>))"
proof (intro conjI impI)
  let ?vc = "get_vehicle_characteristics E (in_make input_data) (in_model input_data)
      (in_year input_data)"
  let ?rm = "get_regional_cost_multiplier (get_default (in_zip_code input_data) '''')
      (get_default (in_state input_data) '''')"
  assume res: "calculate_total_cost_of_ownership E current_year input_data
      = Inr (Lease_result l)"
  then show tt: "lower (get_default (in_transaction_type input_data) ''purchase'') = ''lease''"
    by (auto simp: calculate_total_cost_of_ownership_def Let_def
        split: if_splits sum.splits)
  with res have a: "calculate_lease_tco E current_year input_data ?vc ?rm = Inr l"
    by (auto simp: calculate_total_cost_of_ownership_def Let_def split: sum.splits)
  obtain n mp limit base rows tot where
    n: "in_analysis_years input_data = Some n"
    and mp: "in_lease_monthly_payment input_data = Some mp"
    and limit: "in_lease_mileage_limit input_data = Some limit"
    and base: "call_get_maintenance_schedule limit n
        (get_default (in_current_mileage input_data) 0) None = Inr base"
    and run: "for_range
        (lease_year_body E current_year input_data ?vc ?rm mp limit
           (adjust_lease_maintenance_schedule base (in_make input_data) ?rm))
        1 n
        ([], \<lparr> lt_lease_payments = 0, lt_maintenance = 0, lt_insurance = 0,
               lt_fuel_energy = 0, lt_fees_penalties = 0 \<rparr>)
      = Inr (rows, tot)"
    and fin: "lease_final input_data ?vc n limit (get_default (in_down_payment input_data) 0)
        (adjust_lease_maintenance_schedule base (in_make input_data) ?rm) rows tot = Inr l"
    by (rule lease_tco_Inr [OF a])
  let ?adj = "adjust_lease_maintenance_schedule base (in_make input_data) ?rm"
  have body: "lease_year_body E current_year input_data ?vc ?rm mp limit ?adj y (rs, t)
      = (case lease_year_row E current_year input_data ?vc ?rm mp limit ?adj y of
           Inl e \<Rightarrow> Inl e
         | Inr row \<Rightarrow> Inr (rs @ [row], add_to_lease_totals t row))" for y rs t
    by (simp add: lease_year_body_def)
  note loop = row_loop [where row = "lease_year_row E current_year input_data ?vc ?rm mp
        limit ?adj" and add = add_to_lease_totals, OF run body]
  note f = lease_final_Inr [OF fin]
  show "\<exists>lease_term. in_analysis_years input_data = Some lease_term
      \<and> length (lres_annual_breakdown l) = nat lease_term"
    using n loop(1) f(1) by simp
next
  assume tt: "lower (get_default (in_transaction_type input_data) ''purchase'') \<noteq> ''lease''"
  have p: "lower ''purchase'' \<noteq> ''lease''" by code_simp
  show "calculate_total_cost_of_ownership E current_year input_data
      = calculate_total_cost_of_ownership E current_year
          (input_data \<lparr> in_transaction_type := Some ''purchase'' \<rparr>)"
    using tt p
    by (simp add: calculate_total_cost_of_ownership_def Let_def get_default_def
        purchase_tco_raises)
qed

theorem lease_computed_for_given_horizon_other_types_as_purchase_witness:
  "(case calculate_total_cost_of_ownership sample_engines 2025 long_lease of
      Inr (Lease_result l) \<Rightarrow>
        lower (get_default (in_transaction_type long_lease) ''purchase'') = ''lease''
        \<and> in_analysis_years long_lease = Some 16
        \<and> length (lres_annual_breakdown l) = 16
    | _ \<Rightarrow> False)
   \<and> calculate_total_cost_of_ownership sample_engines 2025 rent_purchase
      = calculate_total_cost_of_ownership sample_engines 2025
          (rent_purchase \<lparr> in_transaction_type := Some ''purchase'' \<rparr>)"
proof -
  obtain l where l: "calculate_total_cost_of_ownership sample_engines 2025 long_lease
      = Inr (Lease_result l)"
    using long_lease_rows
    by (auto split: sum.splits tco_result.splits)
  have n: "in_analysis_years long_lease = Some 16"
    by (simp add: long_lease_def)
  have r: "lower (get_default (in_transaction_type rent_purchase) ''purchase'') \<noteq> ''lease''"
    by code_simp
  note T = lease_computed_for_given_horizon_other_types_as_purchase
  have 1: "lower (get_default (in_transaction_type long_lease) ''purchase'') = ''lease''
      \<and> in_analysis_years long_lease = Some 16
      \<and> length (lres_annual_breakdown l) = 16"
    using T [of sample_engines 2025 long_lease l, THEN conjunct1, THEN mp, OF l] n by simp
  have 2: "calculate_total_cost_of_ownership sample_engines 2025 rent_purchase
      = calculate_total_cost_of_ownership sample_engines 2025
          (rent_purchase \<lparr> in_transaction_type := Some ''purchase'' \<rparr>)"
    by (rule T [of sample_engines 2025 rent_purchase, THEN conjunct2, THEN mp, OF r])
  show ?thesis using 1 2 by (simp add: l)
qed
subsection \<open>The calendar year read from the clock\<close>

text \<open>
  C9. The claim is that two runs of the calculation with identical input produce
  identical output. The lease calculation reads \<open>datetime.now().year\<close>, so its output
  also depends on the year in which it runs: the sample lease run in 2025 and run in
  2026 gives two results that differ, with the ownership years 2025 to 2027 in the rows
  of the first and 2026 to 2028 in the rows of the second.
\<close>

theorem lease_output_changes_with_the_clock_year:
  "calculate_total_cost_of_ownership sample_engines 2025 sample_lease
      \<noteq> calculate_total_cost_of_ownership sample_engines 2026 sample_lease
   \<and> (case calculate_total_cost_of_ownership sample_engines 2025 sample_lease of
        Inr (Lease_result l) \<Rightarrow>
          map lr_ownership_year (lres_annual_breakdown l) = [2025, 2026, 2027]
      | _ \<Rightarrow> False)
   \<and> (case calculate_total_cost_of_ownership sample_engines 2026 sample_lease of
        Inr (Lease_result l) \<Rightarrow>
          map lr_ownership_year (lres_annual_breakdown l) = [2026, 2027, 2028]
      | _ \<Rightarrow> False)"
proof -
  have 1: "calculate_total_cost_of_ownership sample_engines 2025 sample_lease
      \<noteq> calculate_total_cost_of_ownership sample_engines 2026 sample_lease"
    using lease_years_2025 lease_years_2026
    by (auto split: sum.splits tco_result.splits)
  show ?thesis
    by (intro conjI 1 lease_years_2025 lease_years_2026)
qed

text \<open>
  C9, as the code has it for a lease. Two runs of the orchestration on the same lease
  input, with the same collaborators, in any two calendar years either both raise the
  same error or both return a lease result, and the two results are identical except for
  the ownership year and the vehicle age of the annual rows, which follow the calendar
  year read from the clock: the ownership year of the row of year \<open>k\<close> is the calendar
  year of the run plus \<open>k - 1\<close>, and its vehicle age is that year minus the model year.
\<close>

theorem lease_output_follows_clock_in_row_years_only:
  "lower (get_default (in_transaction_type input_data) ''purchase'') = ''lease'' \<longrightarrow>
    (case (calculate_total_cost_of_ownership E clock_year input_data,
           calculate_total_cost_of_ownership E clock_year' input_data) of
       (Inr (Lease_result a), Inr (Lease_result b)) \<Rightarrow>
          lease_without_clock a = lease_without_clock b
          \<and> map lr_ownership_year (lres_annual_breakdown a)
              = map (\<lambda>k. clock_year + int k) [0 ..< length (lres_annual_breakdown a)]
          \<and> map lr_vehicle_age (lres_annual_breakdown a)
              = map (\<lambda>k. clock_year + int k - in_year input_data)
                  [0 ..< length (lres_annual_breakdown a)]
     | (Inl e, Inl e') \<Rightarrow> e = e'
     | _ \<Rightarrow> False)"
proof
  let ?vc = "get_vehicle_characteristics E (in_make input_data) (in_model input_data)
      (in_year input_data)"
  let ?rm = "get_regional_cost_multiplier (get_default (in_zip_code input_data) '''')
      (get_default (in_state input_data) '''')"
  assume tt: "lower (get_default (in_transaction_type input_data) ''purchase'') = ''lease''"
  have unf: "calculate_total_cost_of_ownership E cy input_data
      = map_sum id Lease_result (calculate_lease_tco E cy input_data ?vc ?rm)" for cy
    using tt
    by (simp add: calculate_total_cost_of_ownership_def Let_def split: sum.splits)
  have clock: "map_sum id lease_without_clock
        (calculate_lease_tco E clock_year input_data ?vc ?rm)
      = map_sum id lease_without_clock
        (calculate_lease_tco E clock_year' input_data ?vc ?rm)"
    by (rule lease_tco_clock)
  show "(case (calculate_total_cost_of_ownership E clock_year input_data,
           calculate_total_cost_of_ownership E clock_year' input_data) of
       (Inr (Lease_result a), Inr (Lease_result b)) \<Rightarrow>
          lease_without_clock a = lease_without_clock b
          \<and> map lr_ownership_year (lres_annual_breakdown a)
              = map (\<lambda>k. clock_year + int k) [0 ..< length (lres_annual_breakdown a)]
          \<and> map lr_vehicle_age (lres_annual_breakdown a)
              = map (\<lambda>k. clock_year + int k - in_year input_data)
                  [0 ..< length (lres_annual_breakdown a)]
     | (Inl e, Inl e') \<Rightarrow> e = e'
     | _ \<Rightarrow> False)"
  proof (cases "calculate_lease_tco E clock_year input_data ?vc ?rm")
    case (Inl e)
    with clock show ?thesis
      by (cases "calculate_lease_tco E clock_year' input_data ?vc ?rm") (simp_all add: unf)
  next
    case (Inr a)
    with clock obtain b where
      b: "calculate_lease_tco E clock_year' input_data ?vc ?rm = Inr b"
      and ab: "lease_without_clock a = lease_without_clock b"
      by (cases "calculate_lease_tco E clock_year' input_data ?vc ?rm") auto
    note years = lease_row_years [OF Inr]
    show ?thesis using ab years by (simp add: unf Inr b)
  qed
qed

theorem lease_output_follows_clock_in_row_years_only_witness:
  "(case (calculate_total_cost_of_ownership sample_engines 2025 sample_lease,
          calculate_total_cost_of_ownership sample_engines 2031 sample_lease) of
      (Inr (Lease_result a), Inr (Lease_result b)) \<Rightarrow>
         lease_without_clock a = lease_without_clock b
         \<and> map lr_ownership_year (lres_annual_breakdown a) = [2025, 2026, 2027]
         \<and> map lr_vehicle_age (lres_annual_breakdown a) = [0, 1, 2]
    | _ \<Rightarrow> False)"
proof -
  obtain a where a: "calculate_total_cost_of_ownership sample_engines 2025 sample_lease
      = Inr (Lease_result a)"
    and ya: "map lr_ownership_year (lres_annual_breakdown a) = [2025, 2026, 2027]"
    using lease_years_2025
    by (auto split: sum.splits tco_result.splits)
  have tt: "lower (get_default (in_transaction_type sample_lease) ''purchase'') = ''lease''"
    by code_simp
  have "length (map lr_ownership_year (lres_annual_breakdown a)) = 3"
    unfolding ya by simp
  then have len: "length (lres_annual_breakdown a) = 3" by simp
  have y: "in_year sample_lease = 2025"
    by (simp add: sample_lease_def minimal_input_def)
  have up: "[0 ..< 3] = [0, 1, 2]" by (simp add: upt_rec)
  note T = lease_output_follows_clock_in_row_years_only
    [where input_data = sample_lease and E = sample_engines and clock_year = 2025
      and clock_year' = 2031, THEN mp, OF tt]
  show ?thesis
    using T len y up
    by (auto simp: a split: sum.splits tco_result.splits)
qed
end
